theory Spec2Isabelle
  imports Complex_Main "HOL-Library.Char_ord" "HOL-Library.List_Lexorder"
    "HOL-Library.Product_Lexorder"
begin

section \<open>Conventions\<close>

text \<open>
  The three modules \<^verbatim>\<open>moran_auto.py\<close>, \<^verbatim>\<open>process_data.py\<close> and \<^verbatim>\<open>gmm.py\<close> are
  embedded function by function. A Python exception is a value of \<open>error\<close> and a function
  that can raise returns \<open>error + 'a\<close>. Floating-point numbers are modelled by the reals:
  the rounding and the finite range of float64 are left out, so a result of the model is
  the value of the source's expression in exact arithmetic. A numpy division by zero does
  not raise: it answers \<^verbatim>\<open>inf\<close> or \<^verbatim>\<open>nan\<close>, and every later operation of the functions below
  keeps such a value non-finite; the model writes such a result as \<open>None\<close> of \<open>real option\<close>.
  The finite range of float64 is modelled for \<^verbatim>\<open>moran_mixture\<close> alone, in a section of its
  own. Counts and sizes (\<^verbatim>\<open>N\<close>, \<^verbatim>\<open>k\<close>, list positions) are natural numbers.
\<close>

datatype error =
    IndexError | UnboundLocalError | ValueError | ZeroDivisionError
  | AttributeError | KeyError | TypeError

definition np_div :: "real \<Rightarrow> real \<Rightarrow> real option" where
  "np_div a b = (if b = 0 then None else Some (a / b))"

definition mean :: "real list \<Rightarrow> real" where
  "mean x = sum_list x / real (length x)"

definition center :: "real list \<Rightarrow> real list" where
  \<comment> \<open>\<^verbatim>\<open>z = x - x.mean()\<close>\<close>
  "center x = map (\<lambda>v. v - mean x) x"

definition total_weight :: "real list list \<Rightarrow> real" where
  \<comment> \<open>\<^verbatim>\<open>weights.sum()\<close>\<close>
  "total_weight weights = sum_list (map sum_list weights)"

definition unique :: "'a list \<Rightarrow> 'a list" where
  \<comment> \<open>pandas \<^verbatim>\<open>unique()\<close>: the distinct values in order of first appearance\<close>
  "unique xs = rev (remdups (rev xs))"

definition seq :: "error + 'a \<Rightarrow> ('a \<Rightarrow> error + 'b) \<Rightarrow> error + 'b" where
  \<comment> \<open>one statement after another: an exception of the first ends the run\<close>
  "seq x f = (case x of Inl e \<Rightarrow> Inl e | Inr v \<Rightarrow> f v)"

section \<open>moran_auto.py: the weight matrices\<close>

definition zeros :: "nat \<Rightarrow> real list list" where
  \<comment> \<open>\<^verbatim>\<open>np.zeros((N, N))\<close>\<close>
  "zeros N = replicate N (replicate N 0)"

definition assign_ones :: "real list list \<Rightarrow> nat \<Rightarrow> nat list \<Rightarrow> error + real list list" where
  \<comment> \<open>\<^verbatim>\<open>weights[i, js] = 1\<close>; numpy raises IndexError for a position outside the array\<close>
  "assign_ones weights i js =
     (if i < length weights \<and> (\<forall>j \<in> set js. j < length (weights ! i))
      then Inr (weights[i := foldl (\<lambda>row j. row[j := 1]) (weights ! i) js])
      else Inl IndexError)"

definition zero_diag :: "nat \<Rightarrow> real list list \<Rightarrow> real list list" where
  \<comment> \<open>\<^verbatim>\<open>weights[np.diag_indices(N)] = 0\<close> on an N by N array\<close>
  "zero_diag N weights = foldl (\<lambda>w i. w[i := (w ! i)[i := 0]]) weights [0..<N]"

subsection \<open>get_mixture_weights\<close>

fun mixture_loop :: "int list \<Rightarrow> nat list \<Rightarrow> real list list \<Rightarrow> error + real list list" where
  "mixture_loop train_labels [] weights = Inr weights"
| "mixture_loop train_labels (i # rest) weights =
     (if length train_labels \<le> i then Inl IndexError
      else
        let label = train_labels ! i;
            matching = filter (\<lambda>j. train_labels ! j = label) [0..<length train_labels]
        in case assign_ones weights i matching of
             Inl e \<Rightarrow> Inl e
           | Inr weights' \<Rightarrow> mixture_loop train_labels rest weights')"

definition get_mixture_weights :: "int list \<Rightarrow> nat \<Rightarrow> error + real list list" where
  "get_mixture_weights train_labels N =
     (case mixture_loop train_labels [0..<N] (zeros N) of
        Inl e \<Rightarrow> Inl e
      | Inr weights \<Rightarrow> Inr (zero_diag N weights))"

subsection \<open>get_neighbor_weights\<close>

definition norm2 :: "real \<times> real \<Rightarrow> real \<times> real \<Rightarrow> real" where
  \<comment> \<open>\<^verbatim>\<open>np.linalg.norm(gps_loc[i] - gps_loc[j])\<close>, as an exact square root: two distances
      that float64 rounds to the same number can be ranked differently by the source\<close>
  "norm2 p q = sqrt ((fst p - fst q)\<^sup>2 + (snd p - snd q)\<^sup>2)"

fun neighbor_loop ::
  "(real \<times> real) list \<Rightarrow> nat \<Rightarrow> nat \<Rightarrow> nat list \<Rightarrow> real list list \<Rightarrow> error + real list list" where
  "neighbor_loop gps_loc N k [] weights = Inr weights"
| "neighbor_loop gps_loc N k (i # rest) weights =
     (if length gps_loc < N then Inl IndexError
      else
        let ranked = sort_key snd (map (\<lambda>j. (j, norm2 (gps_loc ! i) (gps_loc ! j))) [0..<N]);
            neighbors = map fst (take k (drop 1 ranked))
        in if neighbors = [] then Inl ValueError
           else case assign_ones weights i neighbors of
                  Inl e \<Rightarrow> Inl e
                | Inr weights' \<Rightarrow> neighbor_loop gps_loc N k rest weights')"

definition get_neighbor_weights :: "(real \<times> real) list \<Rightarrow> nat \<Rightarrow> nat \<Rightarrow> error + real list list" where
  \<comment> \<open>\<^verbatim>\<open>sorted\<close> is stable, as \<open>sort_key\<close> is; \<^verbatim>\<open>np.vstack\<close> of an empty slice raises
      ValueError. There is no reset of the diagonal in this function.\<close>
  "get_neighbor_weights gps_loc N k = neighbor_loop gps_loc N k [0..<N] (zeros N)"

subsection \<open>get_area_weights\<close>

text \<open>
  The table \<^verbatim>\<open>paystation_info.csv\<close> is a parameter: its rows, restricted to the columns
  ELMNTKEY, PAIDAREA and SUBAREA, in file order.
\<close>

type_synonym area = "string \<times> string"
type_synonym paystation_info = "(int \<times> string \<times> string) list"

definition lookup_area :: "paystation_info \<Rightarrow> int \<Rightarrow> area" where
  \<comment> \<open>\<^verbatim>\<open>.unique().tolist()[0]\<close> of PAIDAREA and of SUBAREA among the rows of the key\<close>
  "lookup_area area_info key =
     (let rows = filter (\<lambda>r. fst r = key) area_info
      in (hd (unique (map (fst \<circ> snd) rows)), hd (unique (map (snd \<circ> snd) rows))))"

record area_state =
  area_var :: "area option"
  area_dict :: "area \<rightharpoonup> nat list"
  key_dict :: "int \<rightharpoonup> area"
  count :: nat

fun area_scan :: "paystation_info \<Rightarrow> int list \<Rightarrow> area_state \<Rightarrow> error + area_state" where
  "area_scan area_info [] s = Inr s"
| "area_scan area_info (key # rest) s =
     (let area' = (if key \<in> set (unique (map fst area_info))
                   then Some (lookup_area area_info key) else area_var s)
      in case area' of
           None \<Rightarrow> Inl UnboundLocalError
         | Some a \<Rightarrow>
             area_scan area_info rest
               \<lparr> area_var = Some a,
                 area_dict = (area_dict s)(a \<mapsto> (case area_dict s a of None \<Rightarrow> [] | Some l \<Rightarrow> l) @ [count s]),
                 key_dict = (key_dict s)(key \<mapsto> a),
                 count = count s + 1 \<rparr>)"

fun area_fill :: "int list \<Rightarrow> area_state \<Rightarrow> nat list \<Rightarrow> real list list \<Rightarrow> error + real list list" where
  "area_fill train_active_index s [] weights = Inr weights"
| "area_fill train_active_index s (i # rest) weights =
     (if length train_active_index \<le> i then Inl IndexError
      else case key_dict s (train_active_index ! i) of
             None \<Rightarrow> Inl KeyError
           | Some a \<Rightarrow>
               (case assign_ones weights i (case area_dict s a of None \<Rightarrow> [] | Some l \<Rightarrow> l) of
                  Inl e \<Rightarrow> Inl e
                | Inr weights' \<Rightarrow> area_fill train_active_index s rest weights'))"

definition get_area_weights :: "paystation_info \<Rightarrow> int list \<Rightarrow> nat \<Rightarrow> error + real list list" where
  "get_area_weights area_info train_active_index N =
     (case area_scan area_info train_active_index
             \<lparr> area_var = None, area_dict = Map.empty, key_dict = Map.empty, count = 0 \<rparr> of
        Inl e \<Rightarrow> Inl e
      | Inr s \<Rightarrow>
          (case area_fill train_active_index s [0..<N] (zeros N) of
             Inl e \<Rightarrow> Inl e
           | Inr weights \<Rightarrow> Inr (zero_diag N weights)))"

section \<open>moran_auto.py: Moran's I and its moments\<close>

definition moran_area :: "paystation_info \<Rightarrow> real list \<Rightarrow> int list \<Rightarrow> nat \<Rightarrow> error + real option" where
  "moran_area area_info x train_active_index N =
     (case get_area_weights area_info train_active_index N of
        Inl e \<Rightarrow> Inl e
      | Inr weights \<Rightarrow>
          let W = total_weight weights;
              z = center x
          in if length z < N then Inl IndexError
             else
               let top = sum_list (concat (map (\<lambda>i. map (\<lambda>j. weights ! i ! j * z ! i * z ! j) [0..<N]) [0..<N]));
                   bottom = sum_list (map (\<lambda>v. v * v) z)
               in Inr (case np_div (real N) W of
                         None \<Rightarrow> None
                       | Some q \<Rightarrow> np_div (q * top) bottom))"

definition moran_neighbor :: "real list \<Rightarrow> (real \<times> real) list \<Rightarrow> nat \<Rightarrow> nat \<Rightarrow> error + real option" where
  "moran_neighbor x gps_loc N k =
     (case get_neighbor_weights gps_loc N k of
        Inl e \<Rightarrow> Inl e
      | Inr weights \<Rightarrow>
          let W = total_weight weights;
              z = center x
          in if length z < N then Inl IndexError
             else
               let top = sum_list (concat (map (\<lambda>i. map (\<lambda>j. weights ! i ! j * z ! i * z ! j) [0..<N]) [0..<N]));
                   bottom = sum_list (map (\<lambda>v. v * v) z)
               in Inr (case np_div (real N) W of
                         None \<Rightarrow> None
                       | Some q \<Rightarrow> np_div (q * top) bottom))"

definition moran_mixture :: "real list \<Rightarrow> int list \<Rightarrow> nat \<Rightarrow> error + real option" where
  "moran_mixture x train_labels N =
     (case get_mixture_weights train_labels N of
        Inl e \<Rightarrow> Inl e
      | Inr weights \<Rightarrow>
          let W = total_weight weights;
              z = center x
          in if length z < N then Inl IndexError
             else
               let top = sum_list (concat (map (\<lambda>i. map (\<lambda>j. weights ! i ! j * z ! i * z ! j) [0..<N]) [0..<N]));
                   bottom = sum_list (map (\<lambda>v. v * v) z)
               in Inr (case np_div (real N) W of
                         None \<Rightarrow> None
                       | Some q \<Rightarrow> np_div (q * top) bottom))"

definition moran_expectation :: "nat \<Rightarrow> error + real" where
  \<comment> \<open>\<^verbatim>\<open>-1./(N - 1.)\<close> on Python floats: a zero divisor raises\<close>
  "moran_expectation N = (if N = 1 then Inl ZeroDivisionError else Inr (- 1 / (real N - 1)))"

definition readable :: "real list list \<Rightarrow> nat \<Rightarrow> bool" where
  \<comment> \<open>every \<^verbatim>\<open>w[i,j]\<close> and \<^verbatim>\<open>w[j,i]\<close> with \<open>i, j < N\<close> is inside the array\<close>
  "readable w N = (\<forall>i \<in> set [0..<N]. i < length w \<and> N \<le> length (w ! i))"

definition moran_variance :: "real list \<Rightarrow> real list list \<Rightarrow> nat \<Rightarrow> error + real option" where
  "moran_variance x w N =
     (let W = total_weight w;
          z = center x
      in if \<not> readable w N then Inl IndexError
         else
           let s_1 = 0.5 * sum_list (concat (map (\<lambda>i. map (\<lambda>j. (w ! i ! j + w ! j ! i)\<^sup>2) [0..<N]) [0..<N]));
               s_2 = sum_list (map (\<lambda>i. (sum_list (map (\<lambda>j. w ! i ! j) [0..<N])
                                          + sum_list (map (\<lambda>j. w ! j ! i) [0..<N]))\<^sup>2) [0..<N])
           in if N = 0 then Inl ZeroDivisionError
              else
                let s_3 = np_div ((1 / real N) * sum_list (map (\<lambda>v. v ^ 4) z))
                                 (((1 / real N) * sum_list (map (\<lambda>v. v\<^sup>2) z))\<^sup>2);
                    s_4 = ((real N)\<^sup>2 - 3 * real N + 3) * s_1 - real N * s_2 + 3 * W\<^sup>2;
                    s_5 = ((real N)\<^sup>2 - real N) * s_1 - 2 * real N * s_2 + 6 * W\<^sup>2;
                    ratio = (case s_3 of
                               None \<Rightarrow> None
                             | Some s3 \<Rightarrow>
                                 np_div (real N * s_4 - s3 * s_5)
                                        ((real N - 1) * (real N - 2) * (real N - 3) * W\<^sup>2))
                in case moran_expectation N of
                     Inl e \<Rightarrow> Inl e
                   | Inr expectation \<Rightarrow>
                       Inr (case ratio of None \<Rightarrow> None | Some r \<Rightarrow> Some (r - expectation\<^sup>2)))"

definition z_score :: "real option \<Rightarrow> real \<Rightarrow> real option \<Rightarrow> real option" where
  \<comment> \<open>\<^verbatim>\<open>(I - expectation)/np.sqrt(variance)\<close>: not a finite number when the variance is not
      positive or an argument is not finite\<close>
  "z_score I expectation variance =
     (case I of
        None \<Rightarrow> None
      | Some i \<Rightarrow>
          (case variance of
             None \<Rightarrow> None
           | Some v \<Rightarrow> if v \<le> 0 then None else Some ((i - expectation) / sqrt v)))"

definition p_value :: "(real \<Rightarrow> real) \<Rightarrow> real option \<Rightarrow> real option \<times> real option" where
  \<comment> \<open>\<open>sf\<close> is \<^verbatim>\<open>scipy.stats.norm.sf\<close>\<close>
  "p_value sf z = (map_option (\<lambda>v. sf \<bar>v\<bar>) z, map_option (\<lambda>v. sf \<bar>v\<bar> * 2) z)"

section \<open>moran_auto.py: moran_mixture in the range of float64\<close>

text \<open>
  A second embedding of \<^verbatim>\<open>moran_mixture\<close> that keeps the finite range of float64. A value is a
  finite number, one of the two infinities or \<^verbatim>\<open>nan\<close>, and the operations follow IEEE 754 on
  them: a result whose magnitude reaches \<open>2 ^ 1024 - 2 ^ 970\<close>, the least magnitude that
  rounds to an infinity, is that infinity. Rounding within the range and the sign of zero
  are left out, so a finite result is the exact one and a zero divisor counts as positive.
  Sums run from left to right.
\<close>

datatype f64 = Fin real | PInf | MInf | NaN

definition overflow_bound :: real where
  "overflow_bound = 2 ^ 1024 - 2 ^ 970"

definition f64_of :: "real \<Rightarrow> f64" where
  "f64_of v = (if overflow_bound \<le> v then PInf else if v \<le> - overflow_bound then MInf else Fin v)"

definition inf_of :: "real \<Rightarrow> f64" where
  "inf_of s = (if s = 0 then NaN else if 0 < s then PInf else MInf)"

fun sign_of :: "f64 \<Rightarrow> real" where
  "sign_of (Fin a) = sgn a"
| "sign_of PInf = 1"
| "sign_of MInf = - 1"
| "sign_of NaN = 0"

fun f64_neg :: "f64 \<Rightarrow> f64" where
  "f64_neg (Fin a) = Fin (- a)"
| "f64_neg PInf = MInf"
| "f64_neg MInf = PInf"
| "f64_neg NaN = NaN"

fun f64_add :: "f64 \<Rightarrow> f64 \<Rightarrow> f64" where
  "f64_add (Fin a) (Fin b) = f64_of (a + b)"
| "f64_add NaN y = NaN"
| "f64_add x NaN = NaN"
| "f64_add PInf MInf = NaN"
| "f64_add MInf PInf = NaN"
| "f64_add PInf y = PInf"
| "f64_add MInf y = MInf"
| "f64_add (Fin a) y = y"

definition f64_sub :: "f64 \<Rightarrow> f64 \<Rightarrow> f64" where
  "f64_sub x y = f64_add x (f64_neg y)"

fun f64_mul :: "f64 \<Rightarrow> f64 \<Rightarrow> f64" where
  "f64_mul (Fin a) (Fin b) = f64_of (a * b)"
| "f64_mul NaN y = NaN"
| "f64_mul x NaN = NaN"
| "f64_mul x y = inf_of (sign_of x * sign_of y)"

fun f64_div :: "f64 \<Rightarrow> f64 \<Rightarrow> f64" where
  "f64_div (Fin a) (Fin b) = (if b = 0 then inf_of a else f64_of (a / b))"
| "f64_div NaN y = NaN"
| "f64_div x NaN = NaN"
| "f64_div (Fin a) y = Fin 0"
| "f64_div x (Fin b) = inf_of (sign_of x * (if b < 0 then - 1 else 1))"
| "f64_div x y = NaN"

definition f64_sum :: "f64 list \<Rightarrow> f64" where
  "f64_sum xs = foldl f64_add (Fin 0) xs"

definition moran_mixture_f64 :: "f64 list \<Rightarrow> int list \<Rightarrow> nat \<Rightarrow> error + f64" where
  "moran_mixture_f64 x train_labels N =
     (case get_mixture_weights train_labels N of
        Inl e \<Rightarrow> Inl e
      | Inr weights \<Rightarrow>
          let W = f64_sum (map Fin (concat weights));
              z = map (\<lambda>v. f64_sub v (f64_div (f64_sum x) (Fin (real (length x))))) x
          in if length z < N then Inl IndexError
             else
               let top = f64_sum (concat (map (\<lambda>i. map (\<lambda>j.
                            f64_mul (f64_mul (Fin (weights ! i ! j)) (z ! i)) (z ! j)) [0..<N]) [0..<N]));
                   bottom = f64_sum (map (\<lambda>v. f64_mul v v) z)
               in Inr (f64_div (f64_mul (f64_div (Fin (real N)) W) top) bottom))"

section \<open>process_data.py: dates and times\<close>

text \<open>
  A \<^verbatim>\<open>datetime.date\<close> is its proleptic Gregorian ordinal (\<^verbatim>\<open>date.toordinal()\<close>), a
  \<^verbatim>\<open>datetime.time\<close> is the number of seconds since midnight, and a timestamp is the pair
  of both, ordered lexicographically as Python orders them.
\<close>

type_synonym date = nat
type_synonym time = nat
type_synonym datetime = "date \<times> time"

definition is_leap :: "nat \<Rightarrow> bool" where
  "is_leap y = (y mod 4 = 0 \<and> (y mod 100 \<noteq> 0 \<or> y mod 400 = 0))"

definition days_in_month :: "nat \<Rightarrow> nat \<Rightarrow> nat" where
  "days_in_month y m =
     (if m = 2 then (if is_leap y then 29 else 28)
      else if m = 4 \<or> m = 6 \<or> m = 9 \<or> m = 11 then 30 else 31)"

definition days_before_year :: "nat \<Rightarrow> nat" where
  "days_before_year y = (y - 1) * 365 + (y - 1) div 4 - (y - 1) div 100 + (y - 1) div 400"

definition days_before_month :: "nat \<Rightarrow> nat \<Rightarrow> nat" where
  "days_before_month y m = sum_list (map (days_in_month y) [1..<m])"

definition mk_date :: "nat \<Rightarrow> nat \<Rightarrow> nat \<Rightarrow> error + date" where
  \<comment> \<open>\<^verbatim>\<open>datetime.date(year, month, day)\<close>\<close>
  "mk_date y m d =
     (if 1 \<le> y \<and> y \<le> 9999 \<and> 1 \<le> m \<and> m \<le> 12 \<and> 1 \<le> d \<and> d \<le> days_in_month y m
      then Inr (days_before_year y + days_before_month y m + d)
      else Inl ValueError)"

definition weekday :: "date \<Rightarrow> nat" where
  \<comment> \<open>\<^verbatim>\<open>date.weekday()\<close>: Monday is 0 and Sunday is 6\<close>
  "weekday d = (d + 6) mod 7"

definition end_of_day :: "datetime \<Rightarrow> datetime" where
  \<comment> \<open>\<^verbatim>\<open>+ datetime.timedelta(hours=23, minutes=59, seconds=59)\<close>\<close>
  "end_of_day t = (fst t + (snd t + 86399) div 86400, (snd t + 86399) mod 86400)"

definition first_holiday_date :: date where
  \<comment> \<open>the ordinal of 2012-01-01\<close>
  "first_holiday_date = 734503"

definition in_holidays :: "(date \<Rightarrow> bool) \<Rightarrow> date \<Rightarrow> date \<Rightarrow> bool" where
  \<comment> \<open>membership in \<^verbatim>\<open>cal.holidays(start='2012-01-01', end=now.date())\<close>, for the holiday
      rules \<open>cal\<close> of the calendar and the day \<open>today\<close> on which the function runs\<close>
  "in_holidays cal today d = (first_holiday_date \<le> d \<and> d \<le> today \<and> cal d)"

section \<open>process_data.py: load_data\<close>

text \<open>
  The files are parameters. A load file is the block key of its name with its rows, each
  a timestamp and a load that may be missing; \<open>load_paths\<close> lists the files of each
  directory. The pickled locations are a partial map from keys to coordinate lists, and
  \<^verbatim>\<open>block_info.csv\<close> is the list of its rows restricted to the columns the function keeps.
  A cell of that table that is null is \<open>None\<close>. Of the six results the two index
  dictionaries are left out.
\<close>

record block_row =
  Datetime :: datetime
  Load :: "real option"
  Date :: date
  Time :: time
  Day :: nat
  Hour :: nat
  Minute :: nat

record hour_rule =
  ElementKey :: int
  PeakHourStart1 :: "time option"
  PeakHourEnd1 :: "time option"
  PeakHourStart2 :: "time option"
  PeakHourEnd2 :: "time option"
  PeakHourStart3 :: "time option"
  PeakHourEnd3 :: "time option"
  EffectiveStartDate :: "datetime option"
  EffectiveEndDate :: "datetime option"

definition derive :: "datetime \<times> real option \<Rightarrow> block_row" where
  \<comment> \<open>the columns Date, Time, Day, Hour and Minute of a row\<close>
  "derive r =
     \<lparr> Datetime = fst r, Load = snd r, Date = fst (fst r), Time = snd (fst r),
       Day = weekday (fst (fst r)), Hour = snd (fst r) div 3600,
       Minute = (snd (fst r) div 60) mod 60 \<rparr>"

definition read_block ::
  "(date \<Rightarrow> bool) \<Rightarrow> date \<Rightarrow> date \<Rightarrow> date \<Rightarrow> (datetime \<times> real option) list \<Rightarrow> block_row list" where
  \<comment> \<open>lines 85 to 110: sort, drop the missing loads, add the columns, keep the date range,
      drop Sunday, drop the listed holidays, clip\<close>
  "read_block cal today date_start date_end rows =
     (let block_data = sort_key fst rows;
          block_data = filter (\<lambda>r. snd r \<noteq> None) block_data;
          block_data = map derive block_data;
          block_data = filter (\<lambda>r. date_start \<le> Date r \<and> Date r \<le> date_end) block_data;
          block_data = filter (\<lambda>r. Day r \<noteq> 6) block_data;
          block_data = filter (\<lambda>r. \<not> in_holidays cal today (Date r)) block_data
      in map (\<lambda>r. r\<lparr> Load := map_option (\<lambda>v. min v 1.5) (Load r) \<rparr>) block_data)"

definition in_window ::
  "hour_rule \<Rightarrow> datetime option \<Rightarrow> time \<Rightarrow> time \<Rightarrow> block_row \<Rightarrow> bool" where
  \<comment> \<open>the masks of lines 157 to 167; a comparison with a null start date is False\<close>
  "in_window rule effective_end start1 end1 r =
     ((case EffectiveStartDate rule of None \<Rightarrow> False | Some s \<Rightarrow> s \<le> Datetime r)
      \<and> (case effective_end of None \<Rightarrow> True | Some e \<Rightarrow> Datetime r \<le> e)
      \<and> (Date r, start1) \<le> Datetime r
      \<and> Datetime r < (Date r, end1)
      \<and> Day r \<noteq> 5)"

definition blank :: "(block_row \<Rightarrow> bool) \<Rightarrow> block_row list \<Rightarrow> block_row list" where
  \<comment> \<open>\<^verbatim>\<open>block_data.loc[mask, 'Load'] = np.nan\<close>\<close>
  "blank hit block_data = map (\<lambda>r. if hit r then r\<lparr> Load := None \<rparr> else r) block_data"

definition blank_window ::
  "hour_rule \<Rightarrow> datetime option \<Rightarrow> time option \<Rightarrow> time option \<Rightarrow> block_row list \<Rightarrow>
   error + block_row list" where
  \<comment> \<open>one of the three blocks of lines 152 to 209; \<^verbatim>\<open>datetime.datetime.combine\<close> raises
      TypeError for an end that is null\<close>
  "blank_window rule effective_end start1 end1 block_data =
     (case start1 of
        None \<Rightarrow> Inr block_data
      | Some s \<Rightarrow>
          (case end1 of
             None \<Rightarrow> if block_data = [] then Inr block_data else Inl TypeError
           | Some e \<Rightarrow> Inr (blank (in_window rule effective_end s e) block_data)))"

definition apply_rule :: "hour_rule \<Rightarrow> block_row list \<Rightarrow> error + block_row list" where
  \<comment> \<open>the body of the loop over the rows of \<^verbatim>\<open>curr_block_info\<close>\<close>
  "apply_rule rule block_data =
     (if PeakHourStart1 rule \<noteq> None \<and> PeakHourStart2 rule \<noteq> None \<and> PeakHourStart3 rule \<noteq> None
      then Inr block_data
      else
        let effective_end = map_option end_of_day (EffectiveEndDate rule)
        in seq (blank_window rule effective_end (PeakHourStart1 rule) (PeakHourEnd1 rule) block_data)
             (\<lambda>block_data.
                seq (blank_window rule effective_end (PeakHourStart2 rule) (PeakHourEnd2 rule) block_data)
                  (\<lambda>block_data.
                     blank_window rule effective_end (PeakHourStart3 rule) (PeakHourEnd3 rule)
                       block_data)))"

fun apply_rules :: "hour_rule list \<Rightarrow> block_row list \<Rightarrow> error + block_row list" where
  "apply_rules [] block_data = Inr block_data"
| "apply_rules (rule # rest) block_data = seq (apply_rule rule block_data) (apply_rules rest)"

definition group_keys :: "block_row list \<Rightarrow> (nat \<times> nat) list" where
  \<comment> \<open>the groups of \<^verbatim>\<open>groupby(['Day', 'Hour'])\<close>, in sorted order\<close>
  "group_keys block_data = sort (remdups (map (\<lambda>r. (Day r, Hour r)) block_data))"

definition group_mean :: "block_row list \<Rightarrow> nat \<times> nat \<Rightarrow> real option" where
  \<comment> \<open>the mean of the loads of a group that are present\<close>
  "group_mean block_data g =
     (let vs = concat (map (\<lambda>r. case Load r of None \<Rightarrow> [] | Some v \<Rightarrow> [v])
                        (filter (\<lambda>r. (Day r, Hour r) = g) block_data))
      in if vs = [] then None else Some (sum_list vs / real (length vs)))"

record load_state =
  avg_loads :: "real option list list"
  gps_loc_acc :: "(real \<times> real) list"
  element_keys :: "int list"
  park_data_acc :: "(int \<times> block_row list) list"

definition dict_set :: "('k \<times> 'v) list \<Rightarrow> 'k \<Rightarrow> 'v \<Rightarrow> ('k \<times> 'v) list" where
  \<comment> \<open>\<^verbatim>\<open>d[k] = v\<close> on a dictionary kept as an association list\<close>
  "dict_set d k v =
     (if k \<in> fst ` set d then map (\<lambda>p. if fst p = k then (k, v) else p) d else d @ [(k, v)])"

fun load_files ::
  "(date \<Rightarrow> bool) \<Rightarrow> date \<Rightarrow> date \<Rightarrow> date \<Rightarrow> (int \<rightharpoonup> real list) \<Rightarrow> hour_rule list \<Rightarrow>
   (int \<times> (datetime \<times> real option) list) list \<Rightarrow> load_state \<Rightarrow> error + load_state" where
  "load_files cal today date_start date_end locations block_info [] s = Inr s"
| "load_files cal today date_start date_end locations block_info ((key, rows) # rest) s =
     (let block_data = read_block cal today date_start date_end rows
      in if length block_data = 0
         then load_files cal today date_start date_end locations block_info rest s
         else if filter (\<lambda>r. Load r \<noteq> Some 0) block_data = []
         then load_files cal today date_start date_end locations block_info rest s
         else case locations key of
           None \<Rightarrow> load_files cal today date_start date_end locations block_info rest s
         | Some curr_block \<Rightarrow>
             if length curr_block < 3 then Inl IndexError
             else
               let n = length curr_block;
                   mid_lat = (curr_block ! 1 + curr_block ! (n - 2)) / 2;
                   mid_long = (curr_block ! 0 + curr_block ! (n - 3)) / 2;
                   curr_block_info = filter (\<lambda>rule. ElementKey rule = key) block_info
               in case apply_rules curr_block_info block_data of
                    Inl e \<Rightarrow> Inl e
                  | Inr block_data \<Rightarrow>
                      let avg_load = map (group_mean block_data) (group_keys block_data)
                      in if length avg_load \<noteq> 72
                         then load_files cal today date_start date_end locations block_info rest s
                         else load_files cal today date_start date_end locations block_info rest
                                \<lparr> avg_loads = avg_loads s @ [avg_load],
                                  gps_loc_acc = gps_loc_acc s @ [(mid_lat, mid_long)],
                                  element_keys = element_keys s @ [key],
                                  park_data_acc = dict_set (park_data_acc s) key block_data \<rparr>)"

definition date_range ::
  "nat \<times> nat \<Rightarrow> nat \<times> nat \<Rightarrow> nat option \<Rightarrow> nat option \<Rightarrow> error + date \<times> date" where
  \<comment> \<open>lines 63 to 69; \<^verbatim>\<open>calendar.monthrange\<close> and \<^verbatim>\<open>datetime.date\<close> raise ValueError\<close>
  "date_range month_year_start month_year_end day_start day_end =
     (let day_start = (case day_start of None \<Rightarrow> 1 | Some d \<Rightarrow> d)
      in case (case day_end of
                 None \<Rightarrow> (if 1 \<le> fst month_year_end \<and> fst month_year_end \<le> 12
                           then Inr (days_in_month (snd month_year_end) (fst month_year_end))
                           else Inl ValueError)
               | Some d \<Rightarrow> Inr d) of
           Inl e \<Rightarrow> Inl e
         | Inr day_end \<Rightarrow>
             (case mk_date (snd month_year_start) (fst month_year_start) day_start of
                Inl e \<Rightarrow> Inl e
              | Inr date_start \<Rightarrow>
                  (case mk_date (snd month_year_end) (fst month_year_end) day_end of
                     Inl e \<Rightarrow> Inl e
                   | Inr date_end \<Rightarrow> Inr (date_start, date_end))))"

type_synonym table = "((datetime \<times> int) \<times> block_row) list"

record load_result =
  res_element_keys :: "int list"
  res_avg_loads :: "real option list list"
  res_gps_loc :: "(real \<times> real) list"
  res_park_data :: table

definition merge_park_data :: "(int \<times> block_row list) list \<Rightarrow> table" where
  \<comment> \<open>lines 239 to 248: one table indexed by timestamp and key, sorted by this index\<close>
  "merge_park_data d =
     sort_key fst (concat (map (\<lambda>(key, block_data). map (\<lambda>r. ((Datetime r, key), r)) block_data) d))"

definition load_data ::
  "(date \<Rightarrow> bool) \<Rightarrow> date \<Rightarrow> (int \<rightharpoonup> real list) \<Rightarrow> hour_rule list \<Rightarrow>
   (int \<times> (datetime \<times> real option) list) list list \<Rightarrow>
   nat \<times> nat \<Rightarrow> nat \<times> nat \<Rightarrow> nat option \<Rightarrow> nat option \<Rightarrow> error + load_result" where
  "load_data cal today locations block_info load_paths month_year_start month_year_end day_start day_end =
     (case date_range month_year_start month_year_end day_start day_end of
        Inl e \<Rightarrow> Inl e
      | Inr (date_start, date_end) \<Rightarrow>
          (case load_files cal today date_start date_end locations block_info
                  (concat (map (sort_key fst) load_paths))
                  \<lparr> avg_loads = [], gps_loc_acc = [], element_keys = [], park_data_acc = [] \<rparr> of
             Inl e \<Rightarrow> Inl e
           | Inr s \<Rightarrow>
               if avg_loads s = [] then Inl ValueError
               else Inr \<lparr> res_element_keys = element_keys s,
                          res_avg_loads = avg_loads s,
                          res_gps_loc = gps_loc_acc s,
                          res_park_data = merge_park_data (park_data_acc s) \<rparr>))"

section \<open>process_data.py: get_price_changes\<close>











section \<open>gmm.py\<close>

text \<open>
  The scikit-learn calls are parameters: \<open>fit\<close> stands for fitting the scaler and the
  mixture on the training features, \<open>predict\<close> for scaling features with the fitted
  scaler and predicting their labels, \<open>centers_of\<close> for the rescaled means. The two names
  that \<^verbatim>\<open>gmm.py\<close> reads from the module \<^verbatim>\<open>moran_auto\<close> at lines 153 and 154 are the fields
  of \<open>moran_module\<close>; a field that is \<open>None\<close> is a name the module does not have, and reading
  it raises AttributeError.
\<close>

record 'm sklearn =
  fit :: "real list list \<Rightarrow> error + 'm"
  predict :: "'m \<Rightarrow> real list list \<Rightarrow> error + int list"
  centers_of :: "'m \<Rightarrow> (real \<times> real) list"
  norm_sf :: "real \<Rightarrow> real"

record moran_module =
  get_adjacent_weights :: "((real \<times> real) list \<Rightarrow> nat \<Rightarrow> error + real list list) option"
  moran_adjacent :: "(real list \<Rightarrow> (real \<times> real) list \<Rightarrow> nat \<Rightarrow> nat \<Rightarrow> error + real option) option"

definition moran_auto :: moran_module where
  \<comment> \<open>\<^verbatim>\<open>moran_auto.py\<close> defines get_area_weights, moran_area, get_neighbor_weights,
      moran_neighbor, get_mixture_weights, moran_mixture, moran_expectation, moran_variance,
      z_score and p_value, and no other function\<close>
  "moran_auto = \<lparr> get_adjacent_weights = None, moran_adjacent = None \<rparr>"

definition getattr :: "'a option \<Rightarrow> error + 'a" where
  "getattr a = (case a of None \<Rightarrow> Inl AttributeError | Some f \<Rightarrow> Inr f)"

definition xs_level0 :: "table \<Rightarrow> datetime \<Rightarrow> (int \<times> block_row) list" where
  \<comment> \<open>\<^verbatim>\<open>data_df.xs(t, level=0)\<close>\<close>
  "xs_level0 data_df t = map (\<lambda>p. (snd (fst p), snd p)) (filter (\<lambda>p. fst (fst p) = t) data_df)"

definition dropna :: "(int \<times> block_row) list \<Rightarrow> (int \<times> block_row) list" where
  "dropna d = filter (\<lambda>p. Load (snd p) \<noteq> None) d"

definition index_of :: "'a list \<Rightarrow> 'a \<Rightarrow> error + nat" where
  \<comment> \<open>\<^verbatim>\<open>list.index\<close>\<close>
  "index_of l x = (if x \<in> set l then Inr (length (takeWhile (\<lambda>y. y \<noteq> x) l)) else Inl ValueError)"

fun collect :: "('a \<Rightarrow> error + 'b) \<Rightarrow> 'a list \<Rightarrow> error + 'b list" where
  \<comment> \<open>a loop or comprehension that appends one value per element and can raise\<close>
  "collect f [] = Inr []"
| "collect f (x # rest) = seq (f x) (\<lambda>y. seq (collect f rest) (\<lambda>ys. Inr (y # ys)))"

definition take_rows :: "'a list \<Rightarrow> nat list \<Rightarrow> error + 'a list" where
  \<comment> \<open>\<^verbatim>\<open>gps_loc[mask]\<close>\<close>
  "take_rows a m = (if \<forall>i \<in> set m. i < length a then Inr (map (\<lambda>i. a ! i) m) else Inl IndexError)"

definition features :: "real list \<Rightarrow> (real \<times> real) list \<Rightarrow> real list list" where
  \<comment> \<open>\<^verbatim>\<open>np.hstack((loads, coordinates))\<close>\<close>
  "features loads coords = map (\<lambda>(v, c). [v, fst c, snd c]) (zip loads coords)"

definition np_mean :: "real option list \<Rightarrow> real option" where
  \<comment> \<open>\<^verbatim>\<open>np.array(a).mean()\<close>: \<^verbatim>\<open>nan\<close> for an empty array or one that holds a \<^verbatim>\<open>nan\<close>\<close>
  "np_mean a = (if a = [] \<or> None \<in> set a then None
                else Some (sum_list (map the a) / real (length a)))"

definition round2 :: "real \<Rightarrow> real" where
  \<comment> \<open>\<^verbatim>\<open>round(x, 2)\<close>\<close>
  "round2 x = sgn x * real_of_int \<lfloor>\<bar>x\<bar> * 100 + 1 / 2\<rfloor> / 100"

fun count_labels ::
  "int list \<Rightarrow> int list \<Rightarrow> (int \<rightharpoonup> nat) \<Rightarrow> int list \<Rightarrow> nat list \<Rightarrow> nat \<times> nat \<Rightarrow> error + nat \<times> nat" where
  "count_labels test_labels test_active_index train_to_label_map train_labels [] c = Inr c"
| "count_labels test_labels test_active_index train_to_label_map train_labels (i # rest) c =
     (if length test_active_index \<le> i then Inl IndexError
      else case train_to_label_map (test_active_index ! i) of
             None \<Rightarrow> Inl KeyError
           | Some idx \<Rightarrow>
               if length train_labels \<le> idx then Inl IndexError
               else if test_labels ! i = train_labels ! idx
               then count_labels test_labels test_active_index train_to_label_map train_labels rest
                      (fst c + 1, snd c)
               else count_labels test_labels test_active_index train_to_label_map train_labels rest
                      (fst c, snd c + 1))"

definition accuracy_of ::
  "int list \<Rightarrow> int list \<Rightarrow> (int \<rightharpoonup> nat) \<Rightarrow> int list \<Rightarrow> error + real" where
  \<comment> \<open>lines 192 to 205: the count and \<^verbatim>\<open>correct/float(correct + incorrect)\<close>, a division of
      Python floats, which raises on a zero divisor\<close>
  "accuracy_of test_labels test_active_index train_to_label_map train_labels =
     seq (count_labels test_labels test_active_index train_to_label_map train_labels
            [0..<length test_labels] (0, 0))
       (\<lambda>c. if fst c + snd c = 0 then Inl ZeroDivisionError
             else Inr (real (fst c) / real (fst c + snd c)))"

definition test_step ::
  "'m sklearn \<Rightarrow> table \<Rightarrow> (real \<times> real) list \<Rightarrow> int list \<Rightarrow> 'm \<Rightarrow> int list \<Rightarrow>
   (int \<rightharpoonup> nat) \<Rightarrow> int list \<Rightarrow> datetime \<Rightarrow> error + real" where
  \<comment> \<open>the body of the loop over the test times, for a test time other than the training time\<close>
  "test_step lib data_df gps_loc block_keys model train_active_index train_to_label_map
     train_labels test_time =
     (let test_data = xs_level0 data_df test_time;
          test_data = dropna test_data;
          test_data = filter (\<lambda>p. fst p \<in> set train_active_index) test_data;
          test_active_index = map fst test_data
      in seq (collect (index_of block_keys) test_active_index) (\<lambda>test_mask.
           let test_loads = map (\<lambda>p. the (Load (snd p))) test_data
           in seq (take_rows gps_loc test_mask) (\<lambda>coords.
                seq (predict lib model (features test_loads coords)) (\<lambda>test_labels.
                  accuracy_of test_labels test_active_index train_to_label_map train_labels))))"

record gmm_state =
  average_accuracies :: "real option list"
  centers :: "(real \<times> real) list list"
  morans_mixture :: "real option list list"
  morans_area :: "real option list list"
  morans_adjacent :: "real option list list"

definition train_step ::
  "moran_module \<Rightarrow> 'm sklearn \<Rightarrow> paystation_info \<Rightarrow> table \<Rightarrow> (real \<times> real) list \<Rightarrow> nat \<Rightarrow>
   int list \<Rightarrow> gmm_state \<Rightarrow> datetime \<Rightarrow> error + gmm_state" where
  \<comment> \<open>the body of the loop over the training times (\<^verbatim>\<open>mask_small\<close> is False)\<close>
  "train_step moran_auto_module lib area_info data_df gps_loc k block_keys s train_time =
     (let train_data = xs_level0 data_df train_time;
          train_data = dropna train_data;
          N = length train_data;
          train_active_index = map fst train_data
      in seq (collect (index_of block_keys) train_active_index) (\<lambda>train_mask.
         let train_to_label_map =
               foldl (\<lambda>m i. m(train_active_index ! i \<mapsto> i)) Map.empty [0..<length train_active_index];
             train_loads = map (\<lambda>p. the (Load (snd p))) train_data
         in seq (take_rows gps_loc train_mask) (\<lambda>coords.
            seq (fit lib (features train_loads coords)) (\<lambda>model.
            let centers' = centers s @ [centers_of lib model]
            in seq (predict lib model (features train_loads coords)) (\<lambda>train_labels.
               seq (get_mixture_weights train_labels N) (\<lambda>weights.
               seq (moran_mixture train_loads train_labels N) (\<lambda>I.
               seq (moran_expectation N) (\<lambda>expectation.
               seq (moran_variance train_loads weights N) (\<lambda>variance.
               let z = z_score I expectation variance;
                   p = p_value (norm_sf lib) z;
                   morans_mixture' = morans_mixture s @ [[I, Some expectation, variance, z, fst p, snd p]]
               in seq (get_area_weights area_info train_active_index N) (\<lambda>weights.
                  seq (moran_area area_info train_loads train_active_index N) (\<lambda>I.
                  seq (moran_expectation N) (\<lambda>expectation.
                  seq (moran_variance train_loads weights N) (\<lambda>variance.
                  let z = z_score I expectation variance;
                      p = p_value (norm_sf lib) z;
                      morans_area' = morans_area s @ [[I, Some expectation, variance, z, fst p, snd p]]
                  in seq (getattr (get_adjacent_weights moran_auto_module)) (\<lambda>get_adjacent_weights_fn.
                     seq (get_adjacent_weights_fn coords N) (\<lambda>weights.
                     seq (getattr (moran_adjacent moran_auto_module)) (\<lambda>moran_adjacent_fn.
                     seq (moran_adjacent_fn train_loads coords N k) (\<lambda>I.
                     seq (moran_expectation N) (\<lambda>expectation.
                     seq (moran_variance train_loads weights N) (\<lambda>variance.
                     let z = z_score I expectation variance;
                         p = p_value (norm_sf lib) z;
                         morans_adjacent' = morans_adjacent s @ [[I, Some expectation, variance, z, fst p, snd p]]
                     in seq (collect (test_step lib data_df gps_loc block_keys model train_active_index
                                        train_to_label_map train_labels)
                               (filter (\<lambda>t. t \<noteq> train_time) (unique (map (\<lambda>p. fst (fst p)) data_df))))
                          (\<lambda>accuracies.
                             Inr \<lparr> average_accuracies = average_accuracies s @ [np_mean (map Some accuracies)],
                                   centers = centers',
                                   morans_mixture = morans_mixture',
                                   morans_area = morans_area',
                                   morans_adjacent = morans_adjacent' \<rparr>))))))))))))))))))))"

fun train_loop ::
  "(gmm_state \<Rightarrow> datetime \<Rightarrow> error + gmm_state) \<Rightarrow> datetime list \<Rightarrow> gmm_state \<Rightarrow> error + gmm_state" where
  "train_loop step [] s = Inr s"
| "train_loop step (t # rest) s = seq (step s t) (\<lambda>s'. train_loop step rest s')"

record gmm_result =
  res_day :: nat
  res_hour :: nat
  res_time_avg_error :: "real option"
  res_morans_mixture :: "real option list list"
  res_morans_area :: "real option list list"
  res_morans_adjacent :: "real option list list"
  res_centers :: "(real \<times> real) list list"

definition GMM ::
  "moran_module \<Rightarrow> 'm sklearn \<Rightarrow> paystation_info \<Rightarrow> table \<Rightarrow> (real \<times> real) list \<Rightarrow>
   (nat \<times> nat) list \<Rightarrow> nat \<Rightarrow> nat \<Rightarrow> error + gmm_result" where
  "GMM moran_auto_module lib area_info park_data gps_loc times_list k iteration =
     (if length times_list \<le> iteration then Inl IndexError
      else
        let day = fst (times_list ! iteration);
            hour = snd (times_list ! iteration);
            data_df = filter (\<lambda>p. Day (snd p) = day \<and> Hour (snd p) = hour) park_data;
            block_keys = sort (unique (map (\<lambda>p. snd (fst p)) data_df))
        in seq (train_loop (train_step moran_auto_module lib area_info data_df gps_loc k block_keys)
                  (unique (map (\<lambda>p. fst (fst p)) data_df))
                  \<lparr> average_accuracies = [], centers = [], morans_mixture = [], morans_area = [],
                    morans_adjacent = [] \<rparr>)
             (\<lambda>s. Inr \<lparr> res_day = day, res_hour = hour,
                         res_time_avg_error =
                           map_option (\<lambda>a. round2 (100 - a * 100)) (np_mean (average_accuracies s)),
                         res_morans_mixture = morans_mixture s,
                         res_morans_area = morans_area s,
                         res_morans_adjacent = morans_adjacent s,
                         res_centers = centers s \<rparr>))"

section \<open>The properties stated by the specification\<close>

text \<open>
  The shape of a weight matrix, and the quantities of the formulas written with sums
  over the positions \<open>0 \<le> i, j < N\<close>.
\<close>

definition is_matrix :: "nat \<Rightarrow> real list list \<Rightarrow> bool" where
  "is_matrix N w = (length w = N \<and> (\<forall>r \<in> set w. length r = N))"

definition binary :: "real list list \<Rightarrow> bool" where
  "binary w = (\<forall>r \<in> set w. \<forall>v \<in> set r. v = 0 \<or> v = 1)"

definition non_constant :: "real list \<Rightarrow> bool" where
  "non_constant x = (1 < length (remdups x))"

definition spec_z :: "real list \<Rightarrow> nat \<Rightarrow> nat \<Rightarrow> real" where
  "spec_z x N i = x ! i - (\<Sum>l<N. x ! l) / real N"

definition spec_W :: "real list list \<Rightarrow> nat \<Rightarrow> real" where
  "spec_W w N = (\<Sum>i<N. \<Sum>j<N. w ! i ! j)"

definition spec_I :: "real list list \<Rightarrow> real list \<Rightarrow> nat \<Rightarrow> real" where
  "spec_I w x N =
     (real N / spec_W w N) * (\<Sum>i<N. \<Sum>j<N. w ! i ! j * spec_z x N i * spec_z x N j)
       / (\<Sum>i<N. (spec_z x N i)\<^sup>2)"

definition spec_S1 :: "real list list \<Rightarrow> nat \<Rightarrow> real" where
  "spec_S1 w N = (1 / 2) * (\<Sum>i<N. \<Sum>j<N. (w ! i ! j + w ! j ! i)\<^sup>2)"

definition spec_S2 :: "real list list \<Rightarrow> nat \<Rightarrow> real" where
  "spec_S2 w N = (\<Sum>i<N. ((\<Sum>j<N. w ! i ! j) + (\<Sum>j<N. w ! j ! i))\<^sup>2)"

definition spec_S3 :: "real list \<Rightarrow> nat \<Rightarrow> real" where
  "spec_S3 x N = ((1 / real N) * (\<Sum>i<N. (spec_z x N i) ^ 4)) / ((1 / real N) * (\<Sum>i<N. (spec_z x N i)\<^sup>2))\<^sup>2"

definition spec_S4 :: "real list list \<Rightarrow> nat \<Rightarrow> real" where
  "spec_S4 w N = ((real N)\<^sup>2 - 3 * real N + 3) * spec_S1 w N - real N * spec_S2 w N + 3 * (spec_W w N)\<^sup>2"

definition spec_S5 :: "real list list \<Rightarrow> nat \<Rightarrow> real" where
  "spec_S5 w N = ((real N)\<^sup>2 - real N) * spec_S1 w N - 2 * real N * spec_S2 w N + 6 * (spec_W w N)\<^sup>2"

definition spec_variance :: "real list \<Rightarrow> real list list \<Rightarrow> nat \<Rightarrow> real" where
  "spec_variance x w N =
     (real N * spec_S4 w N - spec_S3 x N * spec_S5 w N)
       / ((real N - 1) * (real N - 2) * (real N - 3) * (spec_W w N)\<^sup>2)
     - (- 1 / (real N - 1))\<^sup>2"

section \<open>Worked inputs\<close>




text \<open>
  The rows that an operating-hour rule blanks: a row is hit by a rule when the rule is not
  skipped (one of its three window starts is null) and the row lies in one of its windows.
\<close>

definition window_hit :: "hour_rule \<Rightarrow> time option \<Rightarrow> time option \<Rightarrow> block_row \<Rightarrow> bool" where
  "window_hit rule start1 end1 r =
     (case start1 of
        None \<Rightarrow> False
      | Some s \<Rightarrow>
          (case end1 of
             None \<Rightarrow> False
           | Some e \<Rightarrow> in_window rule (map_option end_of_day (EffectiveEndDate rule)) s e r))"

definition hits :: "hour_rule \<Rightarrow> block_row \<Rightarrow> bool" where
  "hits rule r =
     (\<not> (PeakHourStart1 rule \<noteq> None \<and> PeakHourStart2 rule \<noteq> None \<and> PeakHourStart3 rule \<noteq> None)
      \<and> (window_hit rule (PeakHourStart1 rule) (PeakHourEnd1 rule) r
         \<or> window_hit rule (PeakHourStart2 rule) (PeakHourEnd2 rule) r
         \<or> window_hit rule (PeakHourStart3 rule) (PeakHourEnd3 rule) r))"

definition blanked :: "(block_row \<Rightarrow> bool) \<Rightarrow> block_row \<Rightarrow> block_row" where
  "blanked hit r = (if hit r then r\<lparr> Load := None \<rparr> else r)"


subsection \<open>A block with one week of loads\<close>

text \<open>
  Block 1 with a load at every hour from 8 to 19 of the six days from Monday 2011-07-04
  (ordinal 734322) to Saturday 2011-07-09: 2 at 8 o'clock and 1/2 otherwise. The
  calendar \<open>july_4_2011\<close> names Independence Day of 2011, the rule blanks 8 to 9 o'clock,
  and \<open>curated_week\<close> is what the function keeps of the block for July 2011.
\<close>

definition holiday_week :: "(datetime \<times> real option) list" where
  "holiday_week =
     concat (map (\<lambda>d. map (\<lambda>h. ((734322 + d, h * 3600), Some (if h = 8 then 2 else 1 / 2))) [8..<20])
               [0..<6])"

definition july_4_2011 :: "date \<Rightarrow> bool" where
  "july_4_2011 d = (d = 734322)"

definition morning_rule :: hour_rule where
  "morning_rule = \<lparr> ElementKey = 1, PeakHourStart1 = Some 28800, PeakHourEnd1 = Some 32400,
      PeakHourStart2 = None, PeakHourEnd2 = None, PeakHourStart3 = None, PeakHourEnd3 = None,
      EffectiveStartDate = Some (734000, 0), EffectiveEndDate = None \<rparr>"

definition week_row :: "nat \<Rightarrow> nat \<Rightarrow> real option \<Rightarrow> block_row" where
  "week_row d h v = \<lparr> Datetime = (734322 + d, h * 3600), Load = v, Date = 734322 + d, Time = h * 3600,
                      Day = d, Hour = h, Minute = 0 \<rparr>"

definition curated_week :: "block_row list" where
  "curated_week = blank (in_window morning_rule None 28800 32400)
                    (read_block july_4_2011 737425 734319 734349 holiday_week)"


subsection \<open>A price table with two blocks\<close>





subsection \<open>A slot of the curated table with four blocks\<close>

text \<open>
  The slot of Monday 9 o'clock. \<open>one_date_table\<close> has the date 2011-07-04 with loads for the
  blocks 11 to 14; \<open>two_date_table\<close> adds the date 2011-07-11, on which block 11 has a blanked
  load and block 15, which has no load on the first date, has one, so that no row of the
  second date is comparable with the first. \<open>toy_sklearn\<close> stands for a fitted scaler and
  mixture that label a row by its load; as scikit-learn does, it raises ValueError for a
  feature matrix without rows.
\<close>

definition toy_sklearn :: "unit sklearn" where
  "toy_sklearn = \<lparr> fit = (\<lambda>X. if X = [] then Inl ValueError else Inr ()),
                    predict = (\<lambda>model X. if X = [] then Inl ValueError
                                         else Inr (map (\<lambda>row. if hd row < 1 / 2 then 0 else 1) X)),
                    centers_of = (\<lambda>model. []),
                    norm_sf = (\<lambda>z. 0) \<rparr>"

definition four_paystations :: paystation_info where
  "four_paystations = [(11, ''A'', ''a''), (12, ''A'', ''a''), (13, ''B'', ''b''), (14, ''B'', ''b'')]"

definition slot_row :: "date \<Rightarrow> real option \<Rightarrow> block_row" where
  "slot_row d v = \<lparr> Datetime = (d, 32400), Load = v, Date = d, Time = 32400, Day = 0, Hour = 9,
                    Minute = 0 \<rparr>"

definition one_date_table :: table where
  "one_date_table =
     [(((734322, 32400), 11), slot_row 734322 (Some (1 / 5))),
      (((734322, 32400), 12), slot_row 734322 (Some (2 / 5))),
      (((734322, 32400), 13), slot_row 734322 (Some (3 / 5))),
      (((734322, 32400), 14), slot_row 734322 (Some (4 / 5)))]"

definition two_date_table :: table where
  "two_date_table =
     one_date_table @
     [(((734329, 32400), 11), slot_row 734329 None),
      (((734329, 32400), 15), slot_row 734329 (Some (1 / 2)))]"

definition five_locations :: "(real \<times> real) list" where
  "five_locations = [(0, 0), (1, 0), (5, 0), (6, 0), (9, 0)]"

section \<open>Shape and sum lemmas\<close>

lemma is_matrix_zeros: "is_matrix N (zeros N)"
  by (simp add: is_matrix_def zeros_def)

lemma binary_zeros: "binary (zeros N)"
  by (auto simp: binary_def zeros_def)

lemma length_fold_ones: "length (foldl (\<lambda>row j. row[j := (1::real)]) r js) = length r"
  by (induction js arbitrary: r) auto

lemma set_fold_ones: "set (foldl (\<lambda>row j. row[j := (1::real)]) r js) \<subseteq> insert 1 (set r)"
proof (induction js arbitrary: r)
  case Nil show ?case by auto
next
  case (Cons j js)
  have "set (r[j := 1]) \<subseteq> insert 1 (set r)" by (rule set_update_subset_insert)
  with Cons[of "r[j := 1]"] show ?case by auto
qed

lemma is_matrix_update:
  "is_matrix N w \<Longrightarrow> length r = N \<Longrightarrow> is_matrix N (w[i := r])"
  unfolding is_matrix_def using set_update_subset_insert[of w i r] by auto

lemma binary_update:
  "binary w \<Longrightarrow> (\<forall>v \<in> set r. v = 0 \<or> v = 1) \<Longrightarrow> binary (w[i := r])"
  unfolding binary_def using set_update_subset_insert[of w i r] by auto

lemma nth_fold_ones:
  "j < length r \<Longrightarrow> foldl (\<lambda>row j. row[j := (1::real)]) r js ! j = (if j \<in> set js then 1 else r ! j)"
  by (induction js arbitrary: r) (auto simp: nth_list_update)

lemma is_matrix_assign:
  assumes "is_matrix N w" "assign_ones w i js = Inr w'"
  shows "is_matrix N w'"
proof -
  from assms(2) have i: "i < length w"
    and w': "w' = w[i := foldl (\<lambda>row j. row[j := 1]) (w ! i) js]"
    by (auto simp: assign_ones_def split: if_splits)
  have "length (w ! i) = N"
    using assms(1) i nth_mem[OF i] by (simp add: is_matrix_def)
  then show ?thesis
    unfolding w' by (intro is_matrix_update[OF assms(1)]) (simp add: length_fold_ones)
qed

lemma binary_assign:
  assumes "binary w" "assign_ones w i js = Inr w'"
  shows "binary w'"
proof -
  from assms(2) have i: "i < length w"
    and w': "w' = w[i := foldl (\<lambda>row j. row[j := 1]) (w ! i) js]"
    by (auto simp: assign_ones_def split: if_splits)
  have "\<forall>v \<in> set (w ! i). v = 0 \<or> v = 1"
    using assms(1) nth_mem[OF i] by (simp add: binary_def)
  then have "\<forall>v \<in> set (foldl (\<lambda>row j. row[j := 1]) (w ! i) js). v = 0 \<or> v = 1"
    using set_fold_ones[of "w ! i" js] by auto
  then show ?thesis unfolding w' by (rule binary_update[OF assms(1)])
qed

lemma mixture_loop_inv:
  "mixture_loop ls is w = Inr w' \<Longrightarrow> is_matrix N w \<Longrightarrow> binary w \<Longrightarrow> is_matrix N w' \<and> binary w'"
proof (induction "is" arbitrary: w)
  case Nil then show ?case by simp
next
  case (Cons i rest)
  from Cons.prems(1) obtain js w1 where a: "assign_ones w i js = Inr w1"
    and l: "mixture_loop ls rest w1 = Inr w'"
    by (auto simp: Let_def split: if_splits sum.splits)
  show ?case
    by (rule Cons.IH[OF l is_matrix_assign[OF Cons.prems(2) a] binary_assign[OF Cons.prems(3) a]])
qed

lemma neighbor_loop_inv:
  "neighbor_loop g N k is w = Inr w' \<Longrightarrow> is_matrix M w \<Longrightarrow> binary w \<Longrightarrow> is_matrix M w' \<and> binary w'"
proof (induction "is" arbitrary: w)
  case Nil then show ?case by simp
next
  case (Cons i rest)
  from Cons.prems(1) obtain js w1 where a: "assign_ones w i js = Inr w1"
    and l: "neighbor_loop g N k rest w1 = Inr w'"
    by (auto simp: Let_def split: if_splits sum.splits)
  show ?case
    by (rule Cons.IH[OF l is_matrix_assign[OF Cons.prems(2) a] binary_assign[OF Cons.prems(3) a]])
qed

lemma area_fill_inv:
  "area_fill idx s is w = Inr w' \<Longrightarrow> is_matrix M w \<Longrightarrow> binary w \<Longrightarrow> is_matrix M w' \<and> binary w'"
proof (induction "is" arbitrary: w)
  case Nil then show ?case by simp
next
  case (Cons i rest)
  from Cons.prems(1) obtain js w1 where a: "assign_ones w i js = Inr w1"
    and l: "area_fill idx s rest w1 = Inr w'"
    by (auto simp: Let_def split: if_splits sum.splits option.splits)
  show ?case
    by (rule Cons.IH[OF l is_matrix_assign[OF Cons.prems(2) a] binary_assign[OF Cons.prems(3) a]])
qed

lemma zero_diag_step_matrix:
  "is_matrix N w \<Longrightarrow> is_matrix N (foldl (\<lambda>w i. w[i := (w ! i)[i := 0]]) w is)"
proof (induction "is" arbitrary: w)
  case Nil then show ?case by simp
next
  case (Cons i rest)
  have "is_matrix N (w[i := (w ! i)[i := 0]])"
  proof (cases "i < length w")
    case True
    then have "length (w ! i) = N"
      using Cons.prems nth_mem[OF True] by (simp add: is_matrix_def)
    then show ?thesis by (intro is_matrix_update[OF Cons.prems]) simp
  next
    case False then show ?thesis using Cons.prems by (simp add: not_less list_update_beyond)
  qed
  then show ?case using Cons.IH by simp
qed

lemma zero_diag_step_binary:
  "binary w \<Longrightarrow> binary (foldl (\<lambda>w i. w[i := (w ! i)[i := 0]]) w is)"
proof (induction "is" arbitrary: w)
  case Nil then show ?case by simp
next
  case (Cons i rest)
  have "binary (w[i := (w ! i)[i := 0]])"
  proof (cases "i < length w")
    case True
    have "\<forall>v \<in> set (w ! i). v = 0 \<or> v = 1"
      using Cons.prems nth_mem[OF True] by (simp add: binary_def)
    then have "\<forall>v \<in> set ((w ! i)[i := 0]). v = 0 \<or> v = 1"
      using set_update_subset_insert[of "w ! i" i 0] by auto
    then show ?thesis by (rule binary_update[OF Cons.prems])
  next
    case False then show ?thesis using Cons.prems by (simp add: not_less list_update_beyond)
  qed
  then show ?case using Cons.IH by simp
qed

lemma diag_step_nth:
  "i < length w \<Longrightarrow> j < length (w ! i) \<Longrightarrow>
   w[a := (w ! a)[a := (0::real)]] ! i ! j = (if i = a \<and> j = a then 0 else w ! i ! j)"
  by (cases "a = i") (auto simp: nth_list_update)

lemma zero_diag_nth:
  "is_matrix N w \<Longrightarrow> i < N \<Longrightarrow> j < N \<Longrightarrow>
   foldl (\<lambda>w i. w[i := (w ! i)[i := 0]]) w is ! i ! j = (if i = j \<and> i \<in> set is then 0 else w ! i ! j)"
proof (induction "is" arbitrary: w)
  case Nil then show ?case by simp
next
  case (Cons a rest)
  have m: "is_matrix N (w[a := (w ! a)[a := 0]])"
    using zero_diag_step_matrix[OF Cons.prems(1), of "[a]"] by simp
  have len: "length w = N" "length (w ! i) = N"
    using Cons.prems by (auto simp: is_matrix_def)
  have "w[a := (w ! a)[a := 0]] ! i ! j = (if i = a \<and> j = a then 0 else w ! i ! j)"
    using Cons.prems(2,3) len by (intro diag_step_nth) simp_all
  then show ?case
    using Cons.IH[OF m Cons.prems(2,3)] by auto
qed

lemma zero_diag_matrix: "is_matrix N w \<Longrightarrow> is_matrix N (zero_diag N w)"
  unfolding zero_diag_def by (rule zero_diag_step_matrix)

lemma zero_diag_binary: "binary w \<Longrightarrow> binary (zero_diag N w)"
  unfolding zero_diag_def by (rule zero_diag_step_binary)

lemma zero_diag_diag: "is_matrix N w \<Longrightarrow> i < N \<Longrightarrow> zero_diag N w ! i ! i = 0"
  unfolding zero_diag_def by (simp add: zero_diag_nth)

lemma get_mixture_weights_shape:
  "get_mixture_weights ls N = Inr w \<Longrightarrow> is_matrix N w \<and> binary w \<and> (\<forall>i<N. w ! i ! i = 0)"
  unfolding get_mixture_weights_def
  by (auto split: sum.splits dest!: mixture_loop_inv[OF _ is_matrix_zeros binary_zeros]
      intro: zero_diag_matrix zero_diag_binary zero_diag_diag)

lemma get_area_weights_shape:
  "get_area_weights tbl idx N = Inr w \<Longrightarrow> is_matrix N w \<and> binary w \<and> (\<forall>i<N. w ! i ! i = 0)"
  unfolding get_area_weights_def
  by (auto split: sum.splits dest!: area_fill_inv[OF _ is_matrix_zeros binary_zeros]
      intro: zero_diag_matrix zero_diag_binary zero_diag_diag)

lemma get_neighbor_weights_shape:
  "get_neighbor_weights g N k = Inr w \<Longrightarrow> is_matrix N w \<and> binary w"
  unfolding get_neighbor_weights_def
  by (auto dest!: neighbor_loop_inv[OF _ is_matrix_zeros binary_zeros])

lemma sum_list_upt: "sum_list (map f [0..<N]) = (\<Sum>i<N. (f i :: real))"
  by (simp add: interv_sum_list_conv_sum_set_nat atLeast0LessThan)

lemma sum_list_concat_real: "sum_list (concat xss) = sum_list (map sum_list (xss :: real list list))"
  by (induction xss) simp_all

lemma sum_list_grid:
  "sum_list (concat (map (\<lambda>i. map (\<lambda>j. f i j) [0..<N]) [0..<M])) = (\<Sum>i<M. \<Sum>j<N. (f i j :: real))"
proof -
  have "sum_list (concat (map (\<lambda>i. map (\<lambda>j. f i j) [0..<N]) [0..<M]))
        = sum_list (map (\<lambda>i. sum_list (map (\<lambda>j. f i j) [0..<N])) [0..<M])"
    by (simp add: sum_list_concat_real comp_def)
  then show ?thesis by (simp add: sum_list_upt)
qed

lemma sum_list_nth: "sum_list r = (\<Sum>j<length r. (r ! j :: real))"
  by (simp add: sum_list_sum_nth atLeast0LessThan)

lemma total_weight_matrix:
  assumes "is_matrix N w"
  shows "total_weight w = spec_W w N"
proof -
  have len: "length w = N" and rows: "\<And>i. i < N \<Longrightarrow> length (w ! i) = N"
    using assms by (auto simp: is_matrix_def)
  have "map sum_list w = map (\<lambda>i. sum_list (w ! i)) [0..<N]"
    using len by (intro nth_equalityI) simp_all
  then have "total_weight w = (\<Sum>i<N. sum_list (w ! i))"
    by (simp add: total_weight_def sum_list_upt)
  also have "\<dots> = (\<Sum>i<N. \<Sum>j<N. w ! i ! j)"
    by (intro sum.cong refl) (simp add: sum_list_nth rows)
  finally show ?thesis by (simp add: spec_W_def)
qed

lemma mean_spec: "length x = N \<Longrightarrow> mean x = (\<Sum>l<N. x ! l) / real N"
  by (simp add: mean_def sum_list_nth)

lemma center_nth: "length x = N \<Longrightarrow> i < N \<Longrightarrow> center x ! i = spec_z x N i"
  by (simp add: center_def spec_z_def mean_spec)

lemma bottom_spec:
  assumes "length x = N"
  shows "sum_list (map (\<lambda>v. v * v) (center x)) = (\<Sum>i<N. (spec_z x N i)\<^sup>2)"
proof -
  have "map (\<lambda>v. v * v) (center x) = map (\<lambda>i. (spec_z x N i)\<^sup>2) [0..<N]"
    using assms by (intro nth_equalityI) (simp_all add: center_def spec_z_def mean_spec power2_eq_square)
  then show ?thesis by (simp add: sum_list_upt)
qed

lemma bottom_nonzero:
  assumes "non_constant x"
  shows "sum_list (map (\<lambda>v. v * v) (center x)) \<noteq> 0"
proof
  assume "sum_list (map (\<lambda>v. v * v) (center x)) = 0"
  then have "\<forall>v \<in> set (map (\<lambda>v. v * v) (center x)). v = 0"
    by (subst (asm) sum_list_nonneg_eq_0_iff) auto
  then have "\<forall>v \<in> set x. v = mean x"
    by (auto simp: center_def)
  then have "set x \<subseteq> {mean x}" by auto
  then have "card (set x) \<le> 1"
    using card_mono[of "{mean x}" "set x"] by simp
  then show False
    using assms by (simp add: non_constant_def length_remdups_card_conv)
qed

lemma top_spec:
  assumes "length x = N"
  shows "sum_list (concat (map (\<lambda>i. map (\<lambda>j. w ! i ! j * center x ! i * center x ! j) [0..<N]) [0..<N]))
         = (\<Sum>i<N. \<Sum>j<N. w ! i ! j * spec_z x N i * spec_z x N j)"
  unfolding sum_list_grid
  by (intro sum.cong refl) (simp add: center_nth[OF assms])

lemma pipeline_spec:
  assumes "length x = N" "non_constant x" "is_matrix N w" "total_weight w \<noteq> 0"
  shows "(let W = total_weight w; z = center x
          in if length z < N then Inl IndexError
             else
               let top = sum_list (concat (map (\<lambda>i. map (\<lambda>j. w ! i ! j * z ! i * z ! j) [0..<N]) [0..<N]));
                   bottom = sum_list (map (\<lambda>v. v * v) z)
               in Inr (case np_div (real N) W of
                         None \<Rightarrow> None
                       | Some q \<Rightarrow> np_div (q * top) bottom))
         = Inr (Some (spec_I w x N))"
proof -
  have len: "length (center x) = N" using assms(1) by (simp add: center_def)
  show ?thesis
    using bottom_nonzero[OF assms(2)] assms(4) len
    unfolding Let_def np_div_def spec_I_def top_spec[OF assms(1)] bottom_spec[OF assms(1), symmetric]
      total_weight_matrix[OF assms(3), symmetric]
    by simp
qed

lemma moran_mixture_spec:
  assumes "length x = N" "non_constant x"
    and "get_mixture_weights ls N = Inr w" "total_weight w \<noteq> 0"
  shows "moran_mixture x ls N = Inr (Some (spec_I w x N))"
  using pipeline_spec[OF assms(1,2) _ assms(4)] get_mixture_weights_shape[OF assms(3)]
  by (simp add: moran_mixture_def assms(3))

lemma moran_area_spec:
  assumes "length x = N" "non_constant x"
    and "get_area_weights tbl idx N = Inr w" "total_weight w \<noteq> 0"
  shows "moran_area tbl x idx N = Inr (Some (spec_I w x N))"
  using pipeline_spec[OF assms(1,2) _ assms(4)] get_area_weights_shape[OF assms(3)]
  by (simp add: moran_area_def assms(3))

lemma moran_neighbor_spec:
  assumes "length x = N" "non_constant x"
    and "get_neighbor_weights g N k = Inr w" "total_weight w \<noteq> 0"
  shows "moran_neighbor x g N k = Inr (Some (spec_I w x N))"
  using pipeline_spec[OF assms(1,2) _ assms(4)] get_neighbor_weights_shape[OF assms(3)]
  by (simp add: moran_neighbor_def assms(3))

lemma center_pow_spec:
  assumes "length x = N"
  shows "sum_list (map (\<lambda>v. v ^ p) (center x)) = (\<Sum>i<N. (spec_z x N i) ^ p)"
proof -
  have "map (\<lambda>v. v ^ p) (center x) = map (\<lambda>i. (spec_z x N i) ^ p) [0..<N]"
    using assms by (intro nth_equalityI) (simp_all add: center_def spec_z_def mean_spec)
  then show ?thesis by (simp add: sum_list_upt)
qed

lemma readable_matrix: "is_matrix N w \<Longrightarrow> readable w N"
  by (auto simp: is_matrix_def readable_def)

lemma moran_variance_spec:
  assumes N: "3 < N" and len: "length x = N" and nc: "non_constant x"
    and m: "is_matrix N w" and W: "total_weight w \<noteq> 0"
  shows "moran_variance x w N = Inr (Some (spec_variance x w N))"
proof -
  have sq: "(\<Sum>i<N. (spec_z x N i)\<^sup>2) \<noteq> 0"
    using bottom_nonzero[OF nc] by (simp add: bottom_spec[OF len])
  have W': "spec_W w N \<noteq> 0"
    using W by (simp add: total_weight_matrix[OF m])
  have d1: "((1 / real N) * (\<Sum>i<N. (spec_z x N i)\<^sup>2))\<^sup>2 \<noteq> 0"
    using sq N by simp
  have d2: "(real N - 1) * (real N - 2) * (real N - 3) * (spec_W w N)\<^sup>2 \<noteq> 0"
    using W' N by simp
  have s1: "0.5 * sum_list (concat (map (\<lambda>i. map (\<lambda>j. (w ! i ! j + w ! j ! i)\<^sup>2) [0..<N]) [0..<N])) = spec_S1 w N"
    by (simp add: sum_list_grid spec_S1_def)
  have s2: "sum_list (map (\<lambda>i. (sum_list (map (\<lambda>j. w ! i ! j) [0..<N])
                                          + sum_list (map (\<lambda>j. w ! j ! i) [0..<N]))\<^sup>2) [0..<N]) = spec_S2 w N"
    by (simp add: sum_list_upt spec_S2_def)
  show ?thesis
    unfolding moran_variance_def Let_def s1 s2 center_pow_spec[OF len]
      total_weight_matrix[OF m]
    using N d1 d2 readable_matrix[OF m]
    by (simp add: np_div_def moran_expectation_def spec_variance_def spec_S3_def spec_S4_def spec_S5_def)
qed

lemma moran_expectation_spec: "3 < N \<Longrightarrow> moran_expectation N = Inr (- 1 / (real N - 1))"
  by (simp add: moran_expectation_def)

lemma mean_scale: "mean (map (\<lambda>v. c * v) x) = c * mean x"
  by (simp add: mean_def sum_list_const_mult)

lemma center_scale: "center (map (\<lambda>v. c * v) x) = map (\<lambda>v. c * v) (center x)"
  by (simp add: center_def mean_scale comp_def right_diff_distrib)

lemma pipeline_scale:
  assumes "c \<noteq> 0"
  shows "(let W = total_weight w; z = center (map (\<lambda>v. c * v) x)
          in if length z < N then Inl IndexError
             else
               let top = sum_list (concat (map (\<lambda>i. map (\<lambda>j. w ! i ! j * z ! i * z ! j) [0..<N]) [0..<N]));
                   bottom = sum_list (map (\<lambda>v. v * v) z)
               in Inr (case np_div (real N) W of
                         None \<Rightarrow> None
                       | Some q \<Rightarrow> np_div (q * top) bottom))
       = (let W = total_weight w; z = center x
          in if length z < N then (Inl IndexError :: error + real option)
             else
               let top = sum_list (concat (map (\<lambda>i. map (\<lambda>j. w ! i ! j * z ! i * z ! j) [0..<N]) [0..<N]));
                   bottom = sum_list (map (\<lambda>v. v * v) z)
               in Inr (case np_div (real N) W of
                         None \<Rightarrow> None
                       | Some q \<Rightarrow> np_div (q * top) bottom))"
proof (cases "length (center x) < N")
  case True
  then show ?thesis by (simp add: center_scale)
next
  case False
  define z where "z = center x"
  have len: "N \<le> length z" using False by (simp add: z_def)
  have top: "sum_list (concat (map (\<lambda>i. map (\<lambda>j. w ! i ! j * map (\<lambda>v. c * v) z ! i * map (\<lambda>v. c * v) z ! j) [0..<N]) [0..<N]))
        = c\<^sup>2 * sum_list (concat (map (\<lambda>i. map (\<lambda>j. w ! i ! j * z ! i * z ! j) [0..<N]) [0..<N]))"
    unfolding sum_list_grid sum_distrib_left
    using len by (intro sum.cong refl) (simp add: power2_eq_square)
  have bottom: "sum_list (map (\<lambda>v. v * v) (map (\<lambda>v. c * v) z)) = c\<^sup>2 * sum_list (map (\<lambda>v. v * v) z)"
    by (simp add: comp_def power2_eq_square sum_list_const_mult[symmetric] mult_ac)
  have c2: "c\<^sup>2 \<noteq> 0" using assms by simp
  have "np_div (q * (c\<^sup>2 * t)) (c\<^sup>2 * b) = np_div (q * t) b" for q t b
    using c2 by (simp add: np_div_def)
  then show ?thesis
    using False unfolding Let_def center_scale z_def[symmetric] top bottom
    by (simp add: z_def split: option.splits)
qed

lemma moran_mixture_scale:
  "c \<noteq> 0 \<Longrightarrow> moran_mixture (map (\<lambda>v. c * v) x) ls N = moran_mixture x ls N"
  unfolding moran_mixture_def by (simp add: pipeline_scale split: sum.splits)

lemma moran_area_scale:
  "c \<noteq> 0 \<Longrightarrow> moran_area tbl (map (\<lambda>v. c * v) x) idx N = moran_area tbl x idx N"
  unfolding moran_area_def by (simp add: pipeline_scale split: sum.splits)

lemma moran_neighbor_scale:
  "c \<noteq> 0 \<Longrightarrow> moran_neighbor (map (\<lambda>v. c * v) x) g N k = moran_neighbor x g N k"
  unfolding moran_neighbor_def by (simp add: pipeline_scale split: sum.splits)

lemma set_unique [simp]: "set (unique xs) = set xs"
  by (simp add: unique_def)

lemma area_scan_bound:
  "area_var s \<noteq> None \<Longrightarrow> \<exists>s'. area_scan tbl keys s = Inr s'"
proof (induction keys arbitrary: s)
  case Nil then show ?case by simp
next
  case (Cons key rest)
  from Cons.prems obtain a where a: "area_var s = Some a" by auto
  show ?case
    by (cases "key \<in> fst ` set tbl") (simp_all add: a Cons.IH)
qed

lemma assign_ones_error: "assign_ones w i js = Inl e \<Longrightarrow> e = IndexError"
  by (auto simp: assign_ones_def split: if_splits)

lemma area_fill_error: "area_fill idx s is w = Inl e \<Longrightarrow> e = IndexError \<or> e = KeyError"
  by (induction idx s "is" w rule: area_fill.induct)
     (auto split: if_splits option.splits sum.splits dest: assign_ones_error)


section \<open>Worked inputs for the Moran statistics\<close>

lemma upt4: "[0..<4] = [0, 1, 2, 3]"
  by (simp add: upt_rec numeral_eq_Suc)

lemma ex_mixture:
  "get_mixture_weights [0, 0, 1, 1] 4 = Inr [[0,1,0,0],[1,0,0,0],[0,0,0,1],[0,0,1,0]]"
  by (simp add: get_mixture_weights_def zeros_def assign_ones_def zero_diag_def upt_rec numeral_eq_Suc)

lemma ex_area:
  "get_area_weights [(11, ''A'', ''a''), (12, ''A'', ''a''), (13, ''B'', ''b''), (14, ''B'', ''b'')] [11, 12, 13, 14] 4
     = Inr [[0,1,0,0],[1,0,0,0],[0,0,0,1],[0,0,1,0]]"
  by (simp add: get_area_weights_def lookup_area_def unique_def zeros_def assign_ones_def zero_diag_def
        upt_rec numeral_eq_Suc)

lemma ex_neighbor:
  "get_neighbor_weights [(0,0),(1,0),(5,0),(6,0)] 4 1 = Inr [[0,1,0,0],[1,0,0,0],[0,0,0,1],[0,0,1,0]]"
  by (simp add: get_neighbor_weights_def zeros_def assign_ones_def norm2_def upt_rec numeral_eq_Suc)

lemma ex_total: "total_weight [[0,1,0,0],[1,0,0,0],[0,0,0,1],[0,0,1,0]] = 4"
  by (simp add: total_weight_def)

lemma ex_nc: "non_constant [1, 2, 3, 4]"
  by (simp add: non_constant_def)

lemma ex_matrix: "is_matrix 4 [[0,1,0,0],[1,0,0,0],[0,0,0,1],[0,0,1,0]]"
  by (simp add: is_matrix_def)

lemma ex_value: "moran_mixture [1, 2, 3, 4] [0, 0, 1, 1] 4 = Inr (Some (3 / 5))"
  by (simp add: moran_mixture_def ex_mixture ex_total center_def mean_def np_div_def upt4)

section \<open>The formula of Moran's I\<close>

text \<open>
  Claim C2. For an observation vector \<open>x\<close> of length \<open>N\<close> whose entries are not all equal and
  a weight matrix built by the scheme whose total weight \<open>W\<close> is not zero, each of
  \<open>moran_mixture\<close>, \<open>moran_area\<close> and \<open>moran_neighbor\<close> returns
  \<open>(N / W) * (\<Sum>i j. w[i,j] * z[i] * z[j]) / (\<Sum>i. z[i]\<^sup>2)\<close> with \<open>z\<close> the vector \<open>x\<close> minus its
  mean. The three functions differ in the matrix only: the right-hand side is the same
  \<open>spec_I\<close> applied to the matrix of the scheme.
\<close>

theorem moran_I_formula:
  assumes "length x = N" and "non_constant x"
  shows "(get_mixture_weights train_labels N = Inr wm \<and> total_weight wm \<noteq> 0
            \<longrightarrow> moran_mixture x train_labels N = Inr (Some (spec_I wm x N)))
       \<and> (get_area_weights area_info train_active_index N = Inr wa \<and> total_weight wa \<noteq> 0
            \<longrightarrow> moran_area area_info x train_active_index N = Inr (Some (spec_I wa x N)))
       \<and> (get_neighbor_weights gps_loc N k = Inr wn \<and> total_weight wn \<noteq> 0
            \<longrightarrow> moran_neighbor x gps_loc N k = Inr (Some (spec_I wn x N)))"
  using assms by (simp add: moran_mixture_spec moran_area_spec moran_neighbor_spec)

theorem moran_I_formula_witness:
  "moran_mixture [1, 2, 3, 4] [0, 0, 1, 1] 4
     = Inr (Some (spec_I [[0,1,0,0],[1,0,0,0],[0,0,0,1],[0,0,1,0]] [1, 2, 3, 4] 4))
   \<and> moran_area [(11, ''A'', ''a''), (12, ''A'', ''a''), (13, ''B'', ''b''), (14, ''B'', ''b'')]
        [1, 2, 3, 4] [11, 12, 13, 14] 4
     = Inr (Some (spec_I [[0,1,0,0],[1,0,0,0],[0,0,0,1],[0,0,1,0]] [1, 2, 3, 4] 4))
   \<and> moran_neighbor [1, 2, 3, 4] [(0,0),(1,0),(5,0),(6,0)] 4 1
     = Inr (Some (spec_I [[0,1,0,0],[1,0,0,0],[0,0,0,1],[0,0,1,0]] [1, 2, 3, 4] 4))
   \<and> spec_I [[0,1,0,0],[1,0,0,0],[0,0,0,1],[0,0,1,0]] [1, 2, 3, 4] 4 = 3 / 5"
proof -
  have len: "length [1, 2, 3, 4 :: real] = 4" by simp
  note f = moran_I_formula[OF len ex_nc,
      of "[0, 0, 1, 1]" "[[0,1,0,0],[1,0,0,0],[0,0,0,1],[0,0,1,0]]"
         "[(11, ''A'', ''a''), (12, ''A'', ''a''), (13, ''B'', ''b''), (14, ''B'', ''b'')]"
         "[11, 12, 13, 14]" "[[0,1,0,0],[1,0,0,0],[0,0,0,1],[0,0,1,0]]"
         "[(0,0),(1,0),(5,0),(6,0)]" 1 "[[0,1,0,0],[1,0,0,0],[0,0,0,1],[0,0,1,0]]"]
  have nz: "total_weight [[0,1,0,0],[1,0,0,0],[0,0,0,1],[0,0,1,0]] \<noteq> 0"
    by (simp add: ex_total)
  have v: "spec_I [[0,1,0,0],[1,0,0,0],[0,0,0,1],[0,0,1,0]] [1, 2, 3, 4] 4 = 3 / 5"
    using f ex_value by (simp add: ex_mixture ex_total)
  from f ex_mixture ex_area ex_neighbor nz v show ?thesis
    by blast
qed

section \<open>The expectation and the variance\<close>

text \<open>
  Claim C3. For every \<open>N > 3\<close>, \<open>moran_expectation N\<close> is \<open>- 1 / (N - 1)\<close>; and for an
  observation vector of length \<open>N\<close> whose entries are not all equal and an \<open>N\<close> by \<open>N\<close> weight
  matrix whose total weight \<open>W\<close> is not zero, \<open>moran_variance\<close> returns
  \<open>(N * S4 - S3 * S5) / ((N - 1) * (N - 2) * (N - 3) * W\<^sup>2) - (- 1 / (N - 1))\<^sup>2\<close> with the sums
  \<open>S1\<close> to \<open>S5\<close> of the specification, which are \<open>spec_S1\<close> to \<open>spec_S5\<close>.
\<close>

theorem moran_moments_formula:
  "(3 < N \<longrightarrow> moran_expectation N = Inr (- 1 / (real N - 1)))
   \<and> (3 < N \<and> length x = N \<and> non_constant x \<and> is_matrix N w \<and> total_weight w \<noteq> 0
        \<longrightarrow> moran_variance x w N = Inr (Some (spec_variance x w N)))"
  by (simp add: moran_expectation_spec moran_variance_spec)

theorem moran_moments_formula_witness:
  "moran_expectation 4 = Inr (- 1 / 3)
   \<and> moran_variance [1, 2, 3, 4] [[0,1,0,0],[1,0,0,0],[0,0,0,1],[0,0,1,0]] 4
       = Inr (Some (spec_variance [1, 2, 3, 4] [[0,1,0,0],[1,0,0,0],[0,0,0,1],[0,0,1,0]] 4))"
  using moran_moments_formula[of 4 "[1, 2, 3, 4]" "[[0,1,0,0],[1,0,0,0],[0,0,0,1],[0,0,1,0]]"]
  by (simp add: ex_nc ex_matrix ex_total)

section \<open>Invariance under scaling\<close>

text \<open>
  Claim C8, amended. In exact real arithmetic, that is with the rounding and the finite
  range of float64 left out, Moran's I of \<open>c * x\<close> is Moran's I of \<open>x\<close> for every observation
  vector \<open>x\<close>, every constant \<open>c\<close> other than zero and the same labels, keys, or coordinates
  and \<open>k\<close>, for each of \<open>moran_mixture\<close>, \<open>moran_area\<close> and \<open>moran_neighbor\<close>. The equation
  holds for every outcome of the call, an error or a value that is not finite included.
\<close>

theorem moran_scale_invariant:
  assumes "c \<noteq> 0"
  shows "moran_mixture (map (\<lambda>v. c * v) x) train_labels N = moran_mixture x train_labels N
       \<and> moran_area area_info (map (\<lambda>v. c * v) x) train_active_index N
           = moran_area area_info x train_active_index N
       \<and> moran_neighbor (map (\<lambda>v. c * v) x) gps_loc N k = moran_neighbor x gps_loc N k"
  using assms by (simp add: moran_mixture_scale moran_area_scale moran_neighbor_scale)

theorem moran_scale_invariant_witness:
  "moran_mixture [2, 4, 6, 8] [0, 0, 1, 1] 4 = Inr (Some (3 / 5))
   \<and> moran_mixture [1, 2, 3, 4] [0, 0, 1, 1] 4 = Inr (Some (3 / 5))"
  using moran_scale_invariant[of 2 "[1, 2, 3, 4]" "[0, 0, 1, 1]" 4] ex_value
  by simp

lemma f64_of_small: "\<bar>v\<bar> \<le> 2 ^ 700 \<Longrightarrow> f64_of v = Fin v"
  by (auto simp: f64_of_def overflow_bound_def)

lemma plain_value:
  "moran_mixture_f64 [Fin 1, Fin 2, Fin 3, Fin 4] [0, 0, 1, 1] 4 = Inr (Fin (3 / 5))"
  by (simp add: moran_mixture_f64_def ex_mixture upt4 f64_sum_def f64_sub_def f64_of_small)

lemma scaled_input:
  "map (f64_mul (Fin (2 ^ 600))) [Fin 1, Fin 2, Fin 3, Fin 4]
   = [Fin (2 ^ 600), Fin (2 * 2 ^ 600), Fin (3 * 2 ^ 600), Fin (4 * 2 ^ 600)]"
  by (simp add: f64_of_small)

lemma scaled_value:
  "moran_mixture_f64 [Fin (2 ^ 600), Fin (2 * 2 ^ 600), Fin (3 * 2 ^ 600), Fin (4 * 2 ^ 600)]
     [0, 0, 1, 1] 4 = Inr NaN"
  by (simp add: moran_mixture_f64_def ex_mixture upt4 f64_sum_def f64_sub_def f64_of_def
        overflow_bound_def inf_of_def)

text \<open>
  Claim C8 as stated has the equality for the numbers the code computes. In the range of
  float64 it fails: for \<open>x = [1, 2, 3, 4]\<close>, the labels \<open>[0, 0, 1, 1]\<close> and \<open>c = 2 ^ 600\<close>, every
  entry of \<open>c * x\<close>, its mean and the centred entries are float64 numbers, their products
  exceed the range, the two sums are infinite and \<^verbatim>\<open>moran_mixture\<close> answers \<^verbatim>\<open>nan\<close>, while on \<open>x\<close>
  it answers the float64 number next to \<open>3 / 5\<close>.
\<close>

theorem moran_scale_overflow:
  "moran_mixture_f64 (map (f64_mul (Fin (2 ^ 600))) [Fin 1, Fin 2, Fin 3, Fin 4]) [0, 0, 1, 1] 4
     = Inr NaN
   \<and> moran_mixture_f64 [Fin 1, Fin 2, Fin 3, Fin 4] [0, 0, 1, 1] 4 = Inr (Fin (3 / 5))"
  unfolding scaled_input using scaled_value plain_value by simp

section \<open>The unbound variable of get_area_weights\<close>

text \<open>
  Claim C9. For a non-empty \<open>train_active_index\<close>, \<open>get_area_weights\<close> fails with
  UnboundLocalError exactly when the first key does not occur in the ELMNTKEY column of
  the paystation table: it fails so for every such input, and when the first key occurs
  in the table that error is not raised, whatever the later keys are.
\<close>

theorem get_area_weights_unbound:
  assumes "idx \<noteq> []"
  shows "(get_area_weights tbl idx N = Inl UnboundLocalError) = (hd idx \<notin> fst ` set tbl)"
proof (cases idx)
  case Nil with assms show ?thesis by simp
next
  case (Cons key rest)
  show ?thesis
  proof (cases "key \<in> fst ` set tbl")
    case True
    let ?s = "\<lparr> area_var = Some (lookup_area tbl key),
                 area_dict = [lookup_area tbl key \<mapsto> [0]],
                 key_dict = [key \<mapsto> lookup_area tbl key],
                 count = 1 \<rparr>"
    obtain s' where s': "area_scan tbl rest ?s = Inr s'"
      using area_scan_bound[of ?s tbl rest] by auto
    have "area_scan tbl idx \<lparr> area_var = None, area_dict = Map.empty, key_dict = Map.empty, count = 0 \<rparr> = Inr s'"
      using True s' by (simp add: Cons)
    then show ?thesis
      using True area_fill_error[of idx s' "[0..<N]" "zeros N"]
      by (auto simp: get_area_weights_def Cons split: sum.splits)
  next
    case False
    then show ?thesis by (simp add: get_area_weights_def Cons)
  qed
qed

theorem get_area_weights_unbound_witness:
  "get_area_weights [(11, ''A'', ''a'')] [15, 11] 2 = Inl UnboundLocalError
   \<and> get_area_weights [(11, ''A'', ''a'')] [11, 15] 2 \<noteq> Inl UnboundLocalError"
  using get_area_weights_unbound[of "[15, 11]" "[(11, ''A'', ''a'')]" 2]
        get_area_weights_unbound[of "[11, 15]" "[(11, ''A'', ''a'')]" 2]
  by simp

section \<open>The shape of the weight matrices\<close>

text \<open>
  Claim C4. Every matrix returned by \<open>get_area_weights\<close> and by \<open>get_mixture_weights\<close> is
  \<open>N\<close> by \<open>N\<close>, holds only 0 and 1 and has a zero diagonal, and every matrix returned by
  \<open>get_neighbor_weights\<close> is \<open>N\<close> by \<open>N\<close> and holds only 0 and 1 (the three lemmas
  \<open>get_area_weights_shape\<close>, \<open>get_mixture_weights_shape\<close> and \<open>get_neighbor_weights_shape\<close>).
  The diagonal of the matrix of \<open>get_neighbor_weights\<close> is not always zero: the function
  drops the first entry of the ranking by distance, and when two rows have the same
  coordinates the first entry of the ranking of the later row is the earlier row, so
  the later row is ranked second in its own ranking. For three rows of which the first
  two coincide and \<open>k = 1\<close>, the entry at row 1 and column 1 is 1.
\<close>

theorem neighbor_diagonal_tie:
  "get_neighbor_weights [(0, 0), (0, 0), (1, 1)] 3 1 = Inr [[0, 1, 0], [0, 1, 0], [1, 0, 0]]"
  by (simp add: get_neighbor_weights_def zeros_def assign_ones_def norm2_def upt_rec numeral_eq_Suc)

section \<open>Price changes of a block with two rows\<close>











section \<open>The curated table of load_data\<close>

lemma in_window_Load [simp]: "in_window rule ee s e (r\<lparr> Load := x \<rparr>) = in_window rule ee s e r"
  by (simp add: in_window_def split: option.splits)

lemma window_hit_Load [simp]: "window_hit rule s e (r\<lparr> Load := x \<rparr>) = window_hit rule s e r"
  by (simp add: window_hit_def split: option.splits)

lemma hits_Load [simp]: "hits rule (r\<lparr> Load := x \<rparr>) = hits rule r"
  by (simp add: hits_def)

lemma blank_window_map:
  assumes "blank_window rule (map_option end_of_day (EffectiveEndDate rule)) s e b = Inr b'"
  shows "b' = map (blanked (window_hit rule s e)) b"
proof (cases s)
  case None
  then show ?thesis using assms by (simp add: blank_window_def blanked_def window_hit_def map_idI)
next
  case (Some s')
  show ?thesis
  proof (cases e)
    case None
    then show ?thesis
      using \<open>s = Some s'\<close> assms by (auto simp: blank_window_def split: if_splits)
  next
    case (Some e')
    then show ?thesis
      using \<open>s = Some s'\<close> assms by (auto simp: blank_window_def blank_def blanked_def window_hit_def)
  qed
qed

lemma blanked_twice:
  "blanked (window_hit rule s e) (blanked h r) = blanked (\<lambda>r. h r \<or> window_hit rule s e r) r"
  by (simp add: blanked_def)

lemma apply_rule_map:
  assumes "apply_rule rule b = Inr b'"
  shows "b' = map (blanked (hits rule)) b"
proof (cases "PeakHourStart1 rule \<noteq> None \<and> PeakHourStart2 rule \<noteq> None \<and> PeakHourStart3 rule \<noteq> None")
  case True
  then have "b' = b" using assms by (simp add: apply_rule_def)
  moreover have "blanked (hits rule) r = r" for r
    using True by (simp add: blanked_def hits_def)
  ultimately show ?thesis by (simp add: map_idI)
next
  case False
  let ?ee = "map_option end_of_day (EffectiveEndDate rule)"
  from assms False obtain b1 b2 where
    1: "blank_window rule ?ee (PeakHourStart1 rule) (PeakHourEnd1 rule) b = Inr b1" and
    2: "blank_window rule ?ee (PeakHourStart2 rule) (PeakHourEnd2 rule) b1 = Inr b2" and
    3: "blank_window rule ?ee (PeakHourStart3 rule) (PeakHourEnd3 rule) b2 = Inr b'"
    by (auto simp: apply_rule_def seq_def Let_def split: sum.splits if_splits)
  have "b' = map (blanked (window_hit rule (PeakHourStart3 rule) (PeakHourEnd3 rule)))
               (map (blanked (window_hit rule (PeakHourStart2 rule) (PeakHourEnd2 rule)))
                  (map (blanked (window_hit rule (PeakHourStart1 rule) (PeakHourEnd1 rule))) b))"
    using blank_window_map[OF 1] blank_window_map[OF 2] blank_window_map[OF 3] by simp
  also have "\<dots> = map (blanked (hits rule)) b"
    using False by (auto simp: blanked_def hits_def)
  finally show ?thesis .
qed

lemma apply_rules_map:
  "apply_rules rules b = Inr b' \<Longrightarrow> b' = map (blanked (\<lambda>r. \<exists>rule \<in> set rules. hits rule r)) b"
proof (induction rules arbitrary: b)
  case Nil
  then show ?case by (simp add: blanked_def map_idI)
next
  case (Cons rule rest)
  from Cons.prems obtain b1 where 1: "apply_rule rule b = Inr b1" and 2: "apply_rules rest b1 = Inr b'"
    by (auto simp: seq_def split: sum.splits)
  show ?case
    unfolding Cons.IH[OF 2] apply_rule_map[OF 1]
    by (auto simp: blanked_def)
qed

lemma set_dict_set: "set (dict_set d k v) \<subseteq> insert (k, v) (set d)"
  by (auto simp: dict_set_def)

lemma load_files_inv:
  assumes "load_files cal today ds de locations block_info files s = Inr s'"
    and "\<forall>(key, bd) \<in> set (park_data_acc s). Q key bd"
    and "\<forall>(key, rows) \<in> set files. \<forall>bd.
           apply_rules (filter (\<lambda>rule. ElementKey rule = key) block_info)
             (read_block cal today ds de rows) = Inr bd \<longrightarrow> Q key bd"
  shows "\<forall>(key, bd) \<in> set (park_data_acc s'). Q key bd"
  using assms
proof (induction files arbitrary: s)
  case Nil
  then show ?case by simp
next
  case (Cons f rest)
  obtain key rows where f: "f = (key, rows)" by (cases f)
  let ?bd = "read_block cal today ds de rows"
  have rest: "\<forall>(key, rows) \<in> set rest. \<forall>bd.
           apply_rules (filter (\<lambda>rule. ElementKey rule = key) block_info)
             (read_block cal today ds de rows) = Inr bd \<longrightarrow> Q key bd"
    using Cons.prems(3) by simp
  consider (skip) "load_files cal today ds de locations block_info rest s = Inr s'"
    | (keep) bd avg mid where
        "apply_rules (filter (\<lambda>rule. ElementKey rule = key) block_info) ?bd = Inr bd"
        "load_files cal today ds de locations block_info rest
           \<lparr> avg_loads = avg_loads s @ [avg], gps_loc_acc = gps_loc_acc s @ [mid],
             element_keys = element_keys s @ [key],
             park_data_acc = dict_set (park_data_acc s) key bd \<rparr> = Inr s'"
    using Cons.prems(1) unfolding f
    by (auto simp: Let_def split: if_splits option.splits sum.splits)
  then show ?case
  proof cases
    case skip
    then show ?thesis using Cons.IH[OF skip Cons.prems(2) rest] by simp
  next
    case keep
    have "Q key bd" using Cons.prems(3) keep(1) by (simp add: f)
    then have "\<forall>(key, bd) \<in> set (dict_set (park_data_acc s) key bd). Q key bd"
      using Cons.prems(2) set_dict_set[of "park_data_acc s" key bd] by auto
    then show ?thesis using Cons.IH[OF keep(2) _ rest] by simp
  qed
qed

lemma set_merge_park_data:
  "(((t, key), r) \<in> set (merge_park_data d)) = (\<exists>bd. (key, bd) \<in> set d \<and> r \<in> set bd \<and> t = Datetime r)"
  by (auto simp: merge_park_data_def)

lemma set_read_block:
  "(r \<in> set (read_block cal today ds de rows)) =
   (\<exists>t v. (t, Some v) \<in> set rows \<and> ds \<le> fst t \<and> fst t \<le> de \<and> weekday (fst t) \<noteq> 6
          \<and> \<not> in_holidays cal today (fst t)
          \<and> r = \<lparr> Datetime = t, Load = Some (min v 1.5), Date = fst t, Time = snd t,
                  Day = weekday (fst t), Hour = snd t div 3600, Minute = (snd t div 60) mod 60 \<rparr>)"
proof
  assume "r \<in> set (read_block cal today ds de rows)"
  then show "\<exists>t v. (t, Some v) \<in> set rows \<and> ds \<le> fst t \<and> fst t \<le> de \<and> weekday (fst t) \<noteq> 6
          \<and> \<not> in_holidays cal today (fst t)
          \<and> r = \<lparr> Datetime = t, Load = Some (min v 1.5), Date = fst t, Time = snd t,
                  Day = weekday (fst t), Hour = snd t div 3600, Minute = (snd t div 60) mod 60 \<rparr>"
    by (auto simp: read_block_def derive_def image_iff)
next
  assume "\<exists>t v. (t, Some v) \<in> set rows \<and> ds \<le> fst t \<and> fst t \<le> de \<and> weekday (fst t) \<noteq> 6
          \<and> \<not> in_holidays cal today (fst t)
          \<and> r = \<lparr> Datetime = t, Load = Some (min v 1.5), Date = fst t, Time = snd t,
                  Day = weekday (fst t), Hour = snd t div 3600, Minute = (snd t div 60) mod 60 \<rparr>"
  then obtain t v where m: "(t, Some v) \<in> set rows" and c: "ds \<le> fst t" "fst t \<le> de" "weekday (fst t) \<noteq> 6"
      "\<not> in_holidays cal today (fst t)"
    and r: "r = \<lparr> Datetime = t, Load = Some (min v 1.5), Date = fst t, Time = snd t,
                  Day = weekday (fst t), Hour = snd t div 3600, Minute = (snd t div 60) mod 60 \<rparr>"
    by blast
  let ?x = "derive (t, Some v)"
  have "?x \<in> set (map derive (filter (\<lambda>r. snd r \<noteq> None) (sort_key fst rows)))"
    using m by force
  moreover have "ds \<le> Date ?x" "Date ?x \<le> de" "Day ?x \<noteq> 6" "\<not> in_holidays cal today (Date ?x)"
    using c by (simp_all add: derive_def)
  moreover have "r = ?x\<lparr> Load := map_option (\<lambda>v. min v 1.5) (Load ?x) \<rparr>"
    by (simp add: r derive_def)
  ultimately show "r \<in> set (read_block cal today ds de rows)"
    unfolding read_block_def Let_def by (simp only: set_map set_filter) blast
qed

lemma load_data_park_data:
  assumes "load_data cal today locations block_info load_paths mys mye day_start day_end = Inr res"
    and "date_range mys mye day_start day_end = Inr (ds, de)"
    and "((t, key), r) \<in> set (res_park_data res)"
  shows "\<exists>rows r0. (key, rows) \<in> set (concat load_paths) \<and> r0 \<in> set (read_block cal today ds de rows)
           \<and> r = blanked (\<lambda>r. \<exists>rule \<in> set block_info. ElementKey rule = key \<and> hits rule r) r0
           \<and> t = Datetime r"
proof -
  let ?files = "concat (map (sort_key fst) load_paths)"
  let ?Q = "\<lambda>key bd. \<exists>rows. (key, rows) \<in> set (concat load_paths)
              \<and> bd = map (blanked (\<lambda>r. \<exists>rule \<in> set block_info. ElementKey rule = key \<and> hits rule r))
                        (read_block cal today ds de rows)"
  from assms(1,2) obtain s where
    s: "load_files cal today ds de locations block_info ?files
          \<lparr> avg_loads = [], gps_loc_acc = [], element_keys = [], park_data_acc = [] \<rparr> = Inr s"
    and res: "res_park_data res = merge_park_data (park_data_acc s)"
    by (auto simp: load_data_def split: sum.splits if_splits)
  have files: "set ?files = set (concat load_paths)" by auto
  have "\<forall>(key, bd) \<in> set (park_data_acc s). ?Q key bd"
  proof (rule load_files_inv[OF s])
    show "\<forall>(key, bd) \<in> set (park_data_acc \<lparr> avg_loads = [], gps_loc_acc = [], element_keys = [], park_data_acc = [] \<rparr>). ?Q key bd"
      by simp
    show "\<forall>(key, rows) \<in> set ?files. \<forall>bd.
           apply_rules (filter (\<lambda>rule. ElementKey rule = key) block_info)
             (read_block cal today ds de rows) = Inr bd \<longrightarrow> ?Q key bd"
      unfolding files
    proof (intro ballI, clarify)
      fix key rows bd
      assume m: "(key, rows) \<in> set (concat load_paths)"
        and a: "apply_rules (filter (\<lambda>rule. ElementKey rule = key) block_info)
                  (read_block cal today ds de rows) = Inr bd"
      have "bd = map (blanked (\<lambda>r. \<exists>rule \<in> set block_info. ElementKey rule = key \<and> hits rule r))
                    (read_block cal today ds de rows)"
        unfolding apply_rules_map[OF a] by (rule map_cong) (auto simp: blanked_def)
      with m show "?Q key bd" by blast
    qed
  qed
  moreover from assms(3) obtain bd where "(key, bd) \<in> set (park_data_acc s)" "r \<in> set bd" "t = Datetime r"
    by (auto simp: res set_merge_park_data)
  ultimately show ?thesis by fastforce
qed

text \<open>
  Claim C5, amended. For every row of the curated table returned by \<open>load_data\<close>, the weekday
  field is the weekday of the row's date and is not 6 (Sunday), the date lies in the inclusive
  range from \<open>date_start\<close> to \<open>date_end\<close>, and the date is not in the list of holidays that the
  function builds: the U.S. federal holidays from 2012-01-01 to the day on which the function
  runs.
\<close>

theorem curated_rows_filtered:
  assumes "load_data cal today locations block_info load_paths month_year_start month_year_end
             day_start day_end = Inr res"
    and "date_range month_year_start month_year_end day_start day_end = Inr (date_start, date_end)"
    and "(idx, r) \<in> set (res_park_data res)"
  shows "Day r = weekday (Date r) \<and> Day r \<noteq> 6 \<and> \<not> in_holidays cal today (Date r)
         \<and> date_start \<le> Date r \<and> Date r \<le> date_end"
proof -
  from load_data_park_data[OF assms(1,2), of "fst idx" "snd idx" r] assms(3)
  obtain rows r0 where r0: "r0 \<in> set (read_block cal today date_start date_end rows)"
    and r: "r = blanked (\<lambda>r. \<exists>rule \<in> set block_info. ElementKey rule = snd idx \<and> hits rule r) r0"
    by auto
  have "Day r = Day r0" "Date r = Date r0"
    by (simp_all add: r blanked_def)
  then show ?thesis
    using r0 by (auto simp: set_read_block)
qed

text \<open>
  Claim C6. Every row of the curated table with timestamp \<open>t\<close> and block key \<open>key\<close> comes from
  a row \<open>(t, v)\<close> of a load file of that key, and its load is \<open>min v 1.5\<close> unless a rule of the
  key in \<^verbatim>\<open>block_info.csv\<close> hits the row, in which case the load is blanked. Rows of Sundays
  and of the listed holidays are not in the table (Claim C5).
\<close>

theorem curated_load_clipped:
  assumes "load_data cal today locations block_info load_paths month_year_start month_year_end
             day_start day_end = Inr res"
    and "((t, key), r) \<in> set (res_park_data res)"
  shows "\<exists>rows v. (key, rows) \<in> set (concat load_paths) \<and> (t, Some v) \<in> set rows \<and> Datetime r = t
           \<and> Load r = (if \<exists>rule \<in> set block_info. ElementKey rule = key \<and> hits rule r
                        then None else Some (min v 1.5))"
proof -
  from assms(1) obtain ds de where
    dr: "date_range month_year_start month_year_end day_start day_end = Inr (ds, de)"
    by (auto simp: load_data_def split: sum.splits)
  from load_data_park_data[OF assms(1) dr assms(2)]
  obtain rows r0 where m: "(key, rows) \<in> set (concat load_paths)"
    and r0: "r0 \<in> set (read_block cal today ds de rows)"
    and r: "r = blanked (\<lambda>r. \<exists>rule \<in> set block_info. ElementKey rule = key \<and> hits rule r) r0"
    and t: "t = Datetime r"
    by auto
  from r0 obtain t0 v where v: "(t0, Some v) \<in> set rows" and l: "Load r0 = Some (min v 1.5)"
    and d: "Datetime r0 = t0"
    by (auto simp: set_read_block)
  have h: "hits rule r = hits rule r0" for rule
    by (simp add: r blanked_def)
  have "Datetime r = t0" by (simp add: r blanked_def d)
  moreover have "Load r = (if \<exists>rule \<in> set block_info. ElementKey rule = key \<and> hits rule r
                        then None else Some (min v 1.5))"
    unfolding h by (simp add: r blanked_def l)
  ultimately show ?thesis using m v t by auto
qed

lemma grid_mem:
  "(x \<in> set (concat (map (\<lambda>d. map (\<lambda>h. f d h) [a..<b]) [0..<n])))
   = (\<exists>d h. d < n \<and> a \<le> h \<and> h < b \<and> x = f d h)"
proof
  assume "x \<in> set (concat (map (\<lambda>d. map (\<lambda>h. f d h) [a..<b]) [0..<n]))"
  then obtain d h where "d < n" "a \<le> h" "h < b" "x = f d h" by auto
  then show "\<exists>d h. d < n \<and> a \<le> h \<and> h < b \<and> x = f d h" by blast
next
  assume "\<exists>d h. d < n \<and> a \<le> h \<and> h < b \<and> x = f d h"
  then obtain d h where "d < n" "a \<le> h" "h < b" "x = f d h" by blast
  then have "d \<in> {0..<n}" "x \<in> f d ` {a..<b}" by auto
  then show "x \<in> set (concat (map (\<lambda>d. map (\<lambda>h. f d h) [a..<b]) [0..<n]))"
    by (simp del: atLeastLessThan_iff) blast
qed

lemma holiday_week_mem:
  "((t, x) \<in> set holiday_week)
   = (\<exists>d h. d < 6 \<and> 8 \<le> h \<and> h < 20 \<and> (t, x) = ((734322 + d, h * 3600), Some (if h = 8 then 2 else 1 / 2)))"
  unfolding holiday_week_def by (rule grid_mem)

lemma weekday_week: "d < 6 \<Longrightarrow> weekday (734322 + d) = d"
  unfolding weekday_def by presburger

lemma minute_of_hour: "h * 3600 div 60 mod 60 = 0" for h :: nat
proof -
  have "h * 3600 = (h * 60) * 60" by simp
  then have "h * 3600 div 60 = h * 60" by simp
  then show ?thesis by simp
qed

lemma derive_week:
  "d < 6 \<Longrightarrow>
   \<lparr> Datetime = (734322 + d, h * 3600), Load = v, Date = fst (734322 + d, h * 3600),
     Time = snd (734322 + d, h * 3600), Day = weekday (fst (734322 + d, h * 3600)),
     Hour = snd (734322 + d, h * 3600) div 3600, Minute = (snd (734322 + d, h * 3600) div 60) mod 60 \<rparr>
   = week_row d h v"
  by (simp add: week_row_def weekday_week minute_of_hour)

lemma clip_week: "Some (min (if h = 8 then 2 else 1 / 2) (1.5 :: real)) = Some (if h = (8 :: nat) then 3 / 2 else 1 / 2)"
  by simp

lemma read_holiday_week:
  "(r \<in> set (read_block july_4_2011 737425 734319 734349 holiday_week))
   = (\<exists>d h. d < 6 \<and> 8 \<le> h \<and> h < 20 \<and> r = week_row d h (Some (if h = 8 then 3 / 2 else 1 / 2)))"
proof
  assume "r \<in> set (read_block july_4_2011 737425 734319 734349 holiday_week)"
  then obtain t v where tv: "(t, Some v) \<in> set holiday_week"
    and r: "r = \<lparr> Datetime = t, Load = Some (min v 1.5), Date = fst t, Time = snd t,
                  Day = weekday (fst t), Hour = snd t div 3600, Minute = (snd t div 60) mod 60 \<rparr>"
    unfolding set_read_block by blast
  from tv obtain d h where dh: "d < 6" "8 \<le> h" "h < 20"
    and t: "t = (734322 + d, h * 3600)" and v: "v = (if h = 8 then 2 else 1 / 2)"
    unfolding holiday_week_mem by auto
  have "r = week_row d h (Some (if h = 8 then 3 / 2 else 1 / 2))"
    unfolding r t v derive_week[OF dh(1)] clip_week ..
  with dh show "\<exists>d h. d < 6 \<and> 8 \<le> h \<and> h < 20 \<and> r = week_row d h (Some (if h = 8 then 3 / 2 else 1 / 2))"
    by blast
next
  assume "\<exists>d h. d < 6 \<and> 8 \<le> h \<and> h < 20 \<and> r = week_row d h (Some (if h = 8 then 3 / 2 else 1 / 2))"
  then obtain d h where dh: "d < 6" "8 \<le> h" "h < 20"
    and r: "r = week_row d h (Some (if h = 8 then 3 / 2 else 1 / 2))" by blast
  let ?t = "(734322 + d, h * 3600)"
  let ?v = "if h = 8 then 2 else 1 / 2 :: real"
  have 1: "(?t, Some ?v) \<in> set holiday_week"
    unfolding holiday_week_mem using dh by blast
  have 2: "734319 \<le> fst ?t" "fst ?t \<le> 734349" using dh by simp_all
  have 3: "weekday (fst ?t) \<noteq> 6" using dh by (simp add: weekday_week)
  have 4: "\<not> in_holidays july_4_2011 737425 (fst ?t)"
    using dh by (simp add: in_holidays_def first_holiday_date_def)
  have 5: "r = \<lparr> Datetime = ?t, Load = Some (min ?v 1.5), Date = fst ?t, Time = snd ?t,
                  Day = weekday (fst ?t), Hour = snd ?t div 3600, Minute = (snd ?t div 60) mod 60 \<rparr>"
    unfolding r derive_week[OF dh(1)] clip_week ..
  show "r \<in> set (read_block july_4_2011 737425 734319 734349 holiday_week)"
    unfolding set_read_block using 1 2 3 4 5 by blast
qed

lemma morning_rule_key: "ElementKey morning_rule = 1"
  by (simp add: morning_rule_def)

lemma morning_rule_applies:
  "apply_rules [morning_rule] b = Inr (blank (in_window morning_rule None 28800 32400) b)"
  by (simp add: apply_rule_def blank_window_def morning_rule_def seq_def)

lemma morning_window:
  "in_window morning_rule None 28800 32400 (week_row d h v) = (h = 8 \<and> d \<noteq> 5)"
  by (auto simp: in_window_def morning_rule_def week_row_def)

lemma blank_week_row:
  "(if in_window morning_rule None 28800 32400 (week_row d h (Some (if h = 8 then 3 / 2 else 1 / 2)))
    then week_row d h (Some (if h = 8 then 3 / 2 else 1 / 2))\<lparr> Load := None \<rparr>
    else week_row d h (Some (if h = 8 then 3 / 2 else 1 / 2)))
   = week_row d h (if h = 8 then (if d = 5 then Some (3 / 2) else None) else Some (1 / 2))"
  unfolding morning_window by (simp add: week_row_def)

lemma curated_week_mem:
  "(r \<in> set curated_week)
   = (\<exists>d h. d < 6 \<and> 8 \<le> h \<and> h < 20
        \<and> r = week_row d h (if h = 8 then (if d = 5 then Some (3 / 2) else None) else Some (1 / 2)))"
proof
  assume "r \<in> set curated_week"
  then obtain r0 where r0: "r0 \<in> set (read_block july_4_2011 737425 734319 734349 holiday_week)"
    and r: "r = (if in_window morning_rule None 28800 32400 r0 then r0\<lparr> Load := None \<rparr> else r0)"
    unfolding curated_week_def blank_def by auto
  from r0 obtain d h where dh: "d < 6" "8 \<le> h" "h < 20"
    and r0': "r0 = week_row d h (Some (if h = 8 then 3 / 2 else 1 / 2))"
    unfolding read_holiday_week by blast
  have "r = week_row d h (if h = 8 then (if d = 5 then Some (3 / 2) else None) else Some (1 / 2))"
    unfolding r r0' by (rule blank_week_row)
  with dh show "\<exists>d h. d < 6 \<and> 8 \<le> h \<and> h < 20
        \<and> r = week_row d h (if h = 8 then (if d = 5 then Some (3 / 2) else None) else Some (1 / 2))"
    by blast
next
  assume "\<exists>d h. d < 6 \<and> 8 \<le> h \<and> h < 20
        \<and> r = week_row d h (if h = 8 then (if d = 5 then Some (3 / 2) else None) else Some (1 / 2))"
  then obtain d h where dh: "d < 6" "8 \<le> h" "h < 20"
    and r: "r = week_row d h (if h = 8 then (if d = 5 then Some (3 / 2) else None) else Some (1 / 2))"
    by blast
  let ?r0 = "week_row d h (Some (if h = 8 then 3 / 2 else 1 / 2))"
  have "?r0 \<in> set (read_block july_4_2011 737425 734319 734349 holiday_week)"
    unfolding read_holiday_week using dh by blast
  then have "(if in_window morning_rule None 28800 32400 ?r0 then ?r0\<lparr> Load := None \<rparr> else ?r0)
             \<in> set curated_week"
    unfolding curated_week_def blank_def by (simp only: set_map) (rule imageI)
  then show "r \<in> set curated_week"
    unfolding r blank_week_row .
qed

lemma curated_week_groups: "length (group_keys curated_week) = 72"
proof -
  have "(\<lambda>r. (Day r, Hour r)) ` set curated_week = {0..<6} \<times> {8..<20}"
  proof (intro set_eqI iffI)
    fix p assume "p \<in> (\<lambda>r. (Day r, Hour r)) ` set curated_week"
    then show "p \<in> {0..<6} \<times> {8..<20}"
      by (auto simp: curated_week_mem week_row_def)
  next
    fix p :: "nat \<times> nat" assume p: "p \<in> {0..<6} \<times> {8..<20}"
    let ?r = "week_row (fst p) (snd p)
                (if snd p = 8 then (if fst p = 5 then Some (3 / 2) else None) else Some (1 / 2))"
    have "?r \<in> set curated_week"
      unfolding curated_week_mem using p by (intro exI[of _ "fst p"] exI[of _ "snd p"]) auto
    moreover have "(Day ?r, Hour ?r) = p" by (simp add: week_row_def)
    ultimately show "p \<in> (\<lambda>r. (Day r, Hour r)) ` set curated_week"
      by (metis (no_types, lifting) image_eqI)
  qed
  then have "card (set (map (\<lambda>r. (Day r, Hour r)) curated_week)) = 72"
    by simp
  then show ?thesis
    by (simp add: group_keys_def length_remdups_card_conv del: set_map)
qed

lemma holiday_week_read: "read_block july_4_2011 737425 734319 734349 holiday_week \<noteq> []"
proof -
  have "week_row 0 9 (Some (1 / 2)) \<in> set (read_block july_4_2011 737425 734319 734349 holiday_week)"
    unfolding read_holiday_week by (intro exI[of _ 0] exI[of _ 9]) simp
  then show ?thesis by auto
qed

lemma holiday_week_occupied:
  "filter (\<lambda>r. Load r \<noteq> Some 0) (read_block july_4_2011 737425 734319 734349 holiday_week) \<noteq> []"
proof -
  have "week_row 0 9 (Some (1 / 2)) \<in> set (read_block july_4_2011 737425 734319 734349 holiday_week)"
    unfolding read_holiday_week by (intro exI[of _ 0] exI[of _ 9]) simp
  moreover have "Load (week_row 0 9 (Some (1 / 2))) \<noteq> Some 0" by (simp add: week_row_def)
  ultimately show ?thesis by (auto simp: filter_empty_conv)
qed

lemma july_2011: "date_range (7, 2011) (7, 2011) None None = Inr (734319, 734349)"
  by (simp add: date_range_def mk_date_def days_in_month_def is_leap_def days_before_year_def
        days_before_month_def upt_rec)

lemma holiday_week_loaded:
  "load_data july_4_2011 737425 [1 \<mapsto> [0, 1, 3, 4]] [morning_rule] [[(1, holiday_week)]]
     (7, 2011) (7, 2011) None None
   = Inr \<lparr> res_element_keys = [1],
           res_avg_loads = [map (group_mean curated_week) (group_keys curated_week)],
           res_gps_loc = [(2, 1 / 2)],
           res_park_data = merge_park_data [(1, curated_week)] \<rparr>"
  using holiday_week_read holiday_week_occupied curated_week_groups
  by (simp add: load_data_def july_2011 morning_rule_key morning_rule_applies
        curated_week_def[symmetric] dict_set_def del: apply_rules.simps)

lemma monday_row_curated: "week_row 0 9 (Some (1 / 2)) \<in> set curated_week"
  unfolding curated_week_mem by (intro exI[of _ 0] exI[of _ 9]) simp

lemma saturday_row_curated: "week_row 5 8 (Some (3 / 2)) \<in> set curated_week"
  unfolding curated_week_mem by (intro exI[of _ 5] exI[of _ 8]) simp

lemma monday_row_loaded:
  "(((734322, 32400), 1), week_row 0 9 (Some (1 / 2))) \<in> set (merge_park_data [(1, curated_week)])"
  unfolding set_merge_park_data using monday_row_curated by (simp add: week_row_def)

lemma saturday_row_loaded:
  "(((734327, 28800), 1), week_row 5 8 (Some (3 / 2))) \<in> set (merge_park_data [(1, curated_week)])"
  unfolding set_merge_park_data using saturday_row_curated by (simp add: week_row_def)

text \<open>
  Claim C5 as stated excludes every federal holiday. For the week of loads that begins on
  Monday 2011-07-04, Independence Day, read for July 2011 on 2020-01-01 (ordinal 737425), the
  curated table holds the row of 9 o'clock of that day: the list of holidays of the function
  starts at 2012-01-01.
\<close>

theorem holiday_row_retained:
  "(\<exists>res. load_data july_4_2011 737425 [1 \<mapsto> [0, 1, 3, 4]] [morning_rule] [[(1, holiday_week)]]
            (7, 2011) (7, 2011) None None = Inr res
         \<and> (((734322, 32400), 1),
             \<lparr> Datetime = (734322, 32400), Load = Some (1 / 2), Date = 734322, Time = 32400,
               Day = 0, Hour = 9, Minute = 0 \<rparr>) \<in> set (res_park_data res))
   \<and> mk_date 2011 7 4 = Inr 734322 \<and> july_4_2011 734322"
proof -
  have "mk_date 2011 7 4 = Inr 734322"
    by (simp add: mk_date_def days_in_month_def is_leap_def days_before_year_def
          days_before_month_def upt_rec)
  moreover have "july_4_2011 734322" by (simp add: july_4_2011_def)
  moreover have "week_row 0 9 (Some (1 / 2))
      = \<lparr> Datetime = (734322, 32400), Load = Some (1 / 2), Date = 734322, Time = 32400,
          Day = 0, Hour = 9, Minute = 0 \<rparr>"
    by (simp add: week_row_def)
  ultimately show ?thesis
    using monday_row_loaded by (simp add: holiday_week_loaded)
qed

theorem curated_rows_filtered_witness:
  "Day (week_row 0 9 (Some (1 / 2))) = weekday (Date (week_row 0 9 (Some (1 / 2))))
   \<and> Day (week_row 0 9 (Some (1 / 2))) \<noteq> 6
   \<and> \<not> in_holidays july_4_2011 737425 (Date (week_row 0 9 (Some (1 / 2))))
   \<and> 734319 \<le> Date (week_row 0 9 (Some (1 / 2)))
   \<and> Date (week_row 0 9 (Some (1 / 2))) \<le> 734349"
  using curated_rows_filtered[OF holiday_week_loaded july_2011, of "((734322, 32400), 1)"
          "week_row 0 9 (Some (1 / 2))"] monday_row_loaded
  by simp

theorem curated_load_clipped_witness:
  "\<exists>rows v. (1, rows) \<in> set (concat [[(1, holiday_week)]])
      \<and> ((734327, 28800), Some v) \<in> set rows
      \<and> Datetime (week_row 5 8 (Some (3 / 2))) = (734327, 28800)
      \<and> Load (week_row 5 8 (Some (3 / 2)))
          = (if \<exists>rule \<in> set [morning_rule]. ElementKey rule = 1 \<and> hits rule (week_row 5 8 (Some (3 / 2)))
             then None else Some (min v 1.5))"
  using curated_load_clipped[OF holiday_week_loaded, of "(734327, 28800)" 1 "week_row 5 8 (Some (3 / 2))"]
        saturday_row_loaded
  by simp

section \<open>The run of GMM on a slot\<close>

lemma seq_Inr: "seq (Inr v) f = f v"
  by (simp add: seq_def)

lemma seq_Inl: "seq (Inl e) f = Inl e"
  by (simp add: seq_def)

lemma seq_returns: "seq x f = Inr y \<Longrightarrow> \<exists>v. x = Inr v \<and> f v = Inr y"
  by (cases x) (simp_all add: seq_def)

lemma getattr_moran_auto:
  "getattr (get_adjacent_weights moran_auto) = Inl AttributeError"
  by (simp add: getattr_def moran_auto_def)

lemma train_step_attribute_error:
  assumes "map fst (dropna (xs_level0 data_df train_time)) = train_active_index"
    and "map (\<lambda>p. the (Load (snd p))) (dropna (xs_level0 data_df train_time)) = train_loads"
    and "length (dropna (xs_level0 data_df train_time)) = N"
    and "collect (index_of block_keys) train_active_index = Inr train_mask"
    and "take_rows gps_loc train_mask = Inr coords"
    and "fit lib (features train_loads coords) = Inr model"
    and "predict lib model (features train_loads coords) = Inr train_labels"
    and "get_mixture_weights train_labels N = Inr wm"
    and "moran_mixture train_loads train_labels N = Inr I1"
    and "moran_expectation N = Inr expectation"
    and "moran_variance train_loads wm N = Inr vm"
    and "get_area_weights area_info train_active_index N = Inr wa"
    and "moran_area area_info train_loads train_active_index N = Inr I2"
    and "moran_variance train_loads wa N = Inr va"
  shows "train_step moran_auto lib area_info data_df gps_loc k block_keys s train_time
         = Inl AttributeError"
  unfolding train_step_def Let_def assms seq_Inr getattr_moran_auto seq_Inl ..

lemma train_step_raises:
  "train_step moran_auto lib area_info data_df gps_loc k block_keys s train_time \<noteq> Inr s'"
proof
  assume "train_step moran_auto lib area_info data_df gps_loc k block_keys s train_time = Inr s'"
  then show False
    unfolding train_step_def Let_def getattr_moran_auto
    by (auto dest!: seq_returns)
qed

lemma train_loop_returns:
  assumes "\<And>s t s'. step s t \<noteq> Inr s'"
  shows "train_loop step ts s = Inr s' \<Longrightarrow> ts = [] \<and> s' = s"
  using assms by (cases ts) (auto dest!: seq_returns)

lemma GMM_returns_no_tuple:
  assumes "GMM moran_auto lib area_info park_data gps_loc times_list k iteration = Inr r"
  shows "filter (\<lambda>p. Day (snd p) = fst (times_list ! iteration) \<and> Hour (snd p) = snd (times_list ! iteration))
           park_data = []
         \<and> res_morans_mixture r = [] \<and> res_morans_area r = [] \<and> res_morans_adjacent r = []"
proof -
  let ?data_df = "filter (\<lambda>p. Day (snd p) = fst (times_list ! iteration)
                               \<and> Hour (snd p) = snd (times_list ! iteration)) park_data"
  let ?s0 = "\<lparr> average_accuracies = [], centers = [], morans_mixture = [], morans_area = [],
               morans_adjacent = [] \<rparr>"
  from assms obtain s where
    loop: "train_loop (train_step moran_auto lib area_info ?data_df gps_loc k
                         (sort (unique (map (\<lambda>p. snd (fst p)) ?data_df))))
             (unique (map (\<lambda>p. fst (fst p)) ?data_df)) ?s0 = Inr s"
    and r: "res_morans_mixture r = morans_mixture s" "res_morans_area r = morans_area s"
      "res_morans_adjacent r = morans_adjacent s"
    unfolding GMM_def Let_def by (auto split: if_splits dest!: seq_returns)
  from train_loop_returns[OF _ loop] train_step_raises
  have e: "unique (map (\<lambda>p. fst (fst p)) ?data_df) = []" and s: "s = ?s0"
    by blast+
  have "map (\<lambda>p. fst (fst p)) ?data_df = []" using e by (simp add: unique_def)
  then have "?data_df = []" by (simp only: map_is_Nil_conv)
  then show ?thesis using r s by simp
qed

lemma dropna_Nil: "dropna [] = []"
  by (simp add: dropna_def)

lemma dropna_Some:
  "dropna ((key, slot_row d (Some v)) # rest) = (key, slot_row d (Some v)) # dropna rest"
  by (simp add: dropna_def slot_row_def)

lemma dropna_None: "dropna ((key, slot_row d None) # rest) = dropna rest"
  by (simp add: dropna_def slot_row_def)

lemma non_constant_loads: "non_constant [1 / 5, 2 / 5, 3 / 5, 4 / 5]"
  by (simp add: non_constant_def)

lemma four_mixture_weights:
  "get_mixture_weights [0, 0, 1, 1] 4 = Inr [[0,1,0,0],[1,0,0,0],[0,0,0,1],[0,0,1,0]]"
  by (simp add: get_mixture_weights_def zeros_def assign_ones_def zero_diag_def upt_rec numeral_eq_Suc)

lemma four_area_weights:
  "get_area_weights four_paystations [11, 12, 13, 14] 4
     = Inr [[0,1,0,0],[1,0,0,0],[0,0,0,1],[0,0,1,0]]"
  by (simp add: four_paystations_def get_area_weights_def lookup_area_def unique_def zeros_def
        assign_ones_def zero_diag_def upt_rec numeral_eq_Suc)

lemma four_total: "total_weight [[0,1,0,0],[1,0,0,0],[0,0,0,1],[0,0,1,0]] \<noteq> 0"
  by (simp add: total_weight_def)

lemma four_matrix: "is_matrix 4 [[0,1,0,0],[1,0,0,0],[0,0,0,1],[0,0,1,0]]"
  by (simp add: is_matrix_def)

lemma one_date_training:
  assumes "dropna (xs_level0 data_df train_time)
           = [(11, slot_row 734322 (Some (1 / 5))), (12, slot_row 734322 (Some (2 / 5))),
              (13, slot_row 734322 (Some (3 / 5))), (14, slot_row 734322 (Some (4 / 5)))]"
    and "collect (index_of block_keys) [11, 12, 13, 14] = Inr [0, 1, 2, 3]"
    and "take_rows gps_loc [0, 1, 2, 3] = Inr [(0, 0), (1, 0), (5, 0), (6, 0)]"
  shows "train_step moran_auto toy_sklearn four_paystations data_df gps_loc k block_keys s train_time
         = Inl AttributeError"
proof (rule train_step_attribute_error)
  let ?x = "[1 / 5, 2 / 5, 3 / 5, 4 / 5] :: real list"
  let ?w = "[[0,1,0,0],[1,0,0,0],[0,0,0,1],[0,0,1,0]] :: real list list"
  let ?c = "[(0, 0), (1, 0), (5, 0), (6, 0)] :: (real \<times> real) list"
  have len: "length ?x = 4" by simp
  show "map fst (dropna (xs_level0 data_df train_time)) = [11, 12, 13, 14]"
    by (simp add: assms(1))
  show "map (\<lambda>p. the (Load (snd p))) (dropna (xs_level0 data_df train_time)) = ?x"
    by (simp add: assms(1) slot_row_def)
  show "length (dropna (xs_level0 data_df train_time)) = 4"
    by (simp add: assms(1))
  show "collect (index_of block_keys) [11, 12, 13, 14] = Inr [0, 1, 2, 3]" by (rule assms(2))
  show "take_rows gps_loc [0, 1, 2, 3] = Inr ?c" by (rule assms(3))
  show "fit toy_sklearn (features ?x ?c) = Inr ()" by (simp add: toy_sklearn_def features_def)
  show "predict toy_sklearn () (features ?x ?c) = Inr [0, 0, 1, 1]"
    by (simp add: toy_sklearn_def features_def)
  show "get_mixture_weights [0, 0, 1, 1] 4 = Inr ?w" by (rule four_mixture_weights)
  show "moran_mixture ?x [0, 0, 1, 1] 4 = Inr (Some (spec_I ?w ?x 4))"
    by (rule moran_mixture_spec[OF len non_constant_loads four_mixture_weights four_total])
  show "moran_expectation 4 = Inr (- 1 / 3)" by (simp add: moran_expectation_def)
  show "moran_variance ?x ?w 4 = Inr (Some (spec_variance ?x ?w 4))"
    by (rule moran_variance_spec[OF _ len non_constant_loads four_matrix four_total]) simp
  show "get_area_weights four_paystations [11, 12, 13, 14] 4 = Inr ?w" by (rule four_area_weights)
  show "moran_area four_paystations ?x [11, 12, 13, 14] 4 = Inr (Some (spec_I ?w ?x 4))"
    by (rule moran_area_spec[OF len non_constant_loads four_area_weights four_total])
  show "moran_variance ?x ?w 4 = Inr (Some (spec_variance ?x ?w 4))"
    by (rule moran_variance_spec[OF _ len non_constant_loads four_matrix four_total]) simp
qed

text \<open>
  Claim C1. The specification has \<open>GMM\<close> return three Moran tuples for every training date
  with data. \<^verbatim>\<open>gmm.py\<close> reads \<^verbatim>\<open>moran_auto.get_adjacent_weights\<close> at line 153, a name that
  \<^verbatim>\<open>moran_auto.py\<close> does not define, so the first training date of every slot ends the run
  with AttributeError after the mixture and the area statistics have been computed
  (\<open>train_step_attribute_error\<close>), and \<open>GMM\<close> returns only for a slot without data
  (\<open>GMM_returns_no_tuple\<close>). For the slot with one date and four blocks:
\<close>

theorem GMM_one_date_raises:
  "GMM moran_auto toy_sklearn four_paystations one_date_table [(0, 0), (1, 0), (5, 0), (6, 0)]
     [(0, 9)] 1 0 = Inl AttributeError"
proof -
  have slot: "filter (\<lambda>p. Day (snd p) = 0 \<and> Hour (snd p) = 9) one_date_table = one_date_table"
    by (simp add: one_date_table_def slot_row_def)
  have keys: "sort (unique (map (\<lambda>p. snd (fst p)) one_date_table)) = [11, 12, 13, 14]"
    by (simp add: one_date_table_def unique_def)
  have dates: "unique (map (\<lambda>p. fst (fst p)) one_date_table) = [(734322, 32400)]"
    by (simp add: one_date_table_def unique_def)
  have step: "train_step moran_auto toy_sklearn four_paystations one_date_table
                [(0, 0), (1, 0), (5, 0), (6, 0)] k [11, 12, 13, 14] s (734322, 32400)
              = Inl AttributeError" for s k
  proof (rule one_date_training)
    show "dropna (xs_level0 one_date_table (734322, 32400))
           = [(11, slot_row 734322 (Some (1 / 5))), (12, slot_row 734322 (Some (2 / 5))),
              (13, slot_row 734322 (Some (3 / 5))), (14, slot_row 734322 (Some (4 / 5)))]"
      by (simp add: xs_level0_def one_date_table_def dropna_Nil dropna_Some)
    show "collect (index_of [11, 12, 13, 14 :: int]) [11, 12, 13, 14] = Inr [0, 1, 2, 3]"
      by (simp add: index_of_def seq_def)
    show "take_rows [(0, 0), (1, 0), (5, 0), (6, 0) :: real \<times> real] [0, 1, 2, 3]
          = Inr [(0, 0), (1, 0), (5, 0), (6, 0)]"
      by (simp add: take_rows_def)
  qed
  show ?thesis
    by (simp add: GMM_def slot keys dates step seq_def)
qed

text \<open>
  Claim C10. The specification has \<open>GMM\<close> raise a division by zero for a test date without a
  comparable row. On the slot with two dates whose second date has no row comparable with
  the first, the run ends with AttributeError while training on the first date, before any
  test date is read. Of the division itself, \<open>accuracy_of_empty\<close> and \<open>accuracy_of_defined\<close>
  below show that it raises for zero test labels and for no other number of them; with a
  library that rejects a feature matrix without rows, the body of the test loop on the
  second date stops in the prediction (\<open>empty_test_date_raises_in_predict\<close>).
\<close>

theorem GMM_empty_test_date_raises:
  "GMM moran_auto toy_sklearn four_paystations two_date_table five_locations [(0, 9)] 1 0
   = Inl AttributeError"
proof -
  have slot: "filter (\<lambda>p. Day (snd p) = 0 \<and> Hour (snd p) = 9) two_date_table = two_date_table"
    by (simp add: two_date_table_def one_date_table_def slot_row_def)
  have keys: "sort (unique (map (\<lambda>p. snd (fst p)) two_date_table)) = [11, 12, 13, 14, 15]"
    by (simp add: two_date_table_def one_date_table_def unique_def)
  have dates: "unique (map (\<lambda>p. fst (fst p)) two_date_table) = [(734322, 32400), (734329, 32400)]"
    by (simp add: two_date_table_def one_date_table_def unique_def)
  have step: "train_step moran_auto toy_sklearn four_paystations two_date_table
                five_locations k [11, 12, 13, 14, 15] s (734322, 32400)
              = Inl AttributeError" for s k
  proof (rule one_date_training)
    show "dropna (xs_level0 two_date_table (734322, 32400))
           = [(11, slot_row 734322 (Some (1 / 5))), (12, slot_row 734322 (Some (2 / 5))),
              (13, slot_row 734322 (Some (3 / 5))), (14, slot_row 734322 (Some (4 / 5)))]"
      by (simp add: xs_level0_def two_date_table_def one_date_table_def dropna_Nil dropna_Some)
    show "collect (index_of [11, 12, 13, 14, 15 :: int]) [11, 12, 13, 14] = Inr [0, 1, 2, 3]"
      by (simp add: index_of_def seq_def)
    show "take_rows five_locations [0, 1, 2, 3] = Inr [(0, 0), (1, 0), (5, 0), (6, 0)]"
      by (simp add: take_rows_def five_locations_def)
  qed
  show ?thesis
    by (simp add: GMM_def slot keys dates step seq_def)
qed

lemma count_labels_total:
  "count_labels test_labels test_active_index m train_labels is c = Inr c' \<Longrightarrow>
   fst c' + snd c' = fst c + snd c + length is"
proof (induction "is" arbitrary: c)
  case Nil
  then show ?case by simp
next
  case (Cons i rest)
  from Cons.prems have
    "count_labels test_labels test_active_index m train_labels rest (fst c + 1, snd c) = Inr c'
     \<or> count_labels test_labels test_active_index m train_labels rest (fst c, snd c + 1) = Inr c'"
    by (auto split: if_splits option.splits)
  then show ?case
  proof
    assume "count_labels test_labels test_active_index m train_labels rest (fst c + 1, snd c) = Inr c'"
    from Cons.IH[OF this] show ?thesis by simp
  next
    assume "count_labels test_labels test_active_index m train_labels rest (fst c, snd c + 1) = Inr c'"
    from Cons.IH[OF this] show ?thesis by simp
  qed
qed

lemma count_labels_error:
  "count_labels test_labels test_active_index m train_labels is c = Inl e \<Longrightarrow>
   e = IndexError \<or> e = KeyError"
  by (induction "is" arbitrary: c) (auto split: if_splits option.splits)

lemma accuracy_of_empty:
  "accuracy_of [] test_active_index m train_labels = Inl ZeroDivisionError"
  by (simp add: accuracy_of_def seq_def)

lemma accuracy_of_defined:
  assumes "test_labels \<noteq> []"
  shows "accuracy_of test_labels test_active_index m train_labels \<noteq> Inl ZeroDivisionError"
proof (cases "count_labels test_labels test_active_index m train_labels [0..<length test_labels] (0, 0)")
  case (Inl e)
  then show ?thesis
    using count_labels_error[OF Inl] by (auto simp: accuracy_of_def seq_def)
next
  case (Inr c)
  have "fst c + snd c = length test_labels"
    using count_labels_total[OF Inr] by simp
  then have "fst c + snd c \<noteq> 0" using assms by simp
  then show ?thesis by (simp add: accuracy_of_def seq_def Inr)
qed

lemma empty_test_date_raises_in_predict:
  "test_step toy_sklearn two_date_table five_locations [11, 12, 13, 14, 15] () [11, 12, 13, 14]
     m [0, 0, 1, 1] (734329, 32400) = Inl ValueError"
proof -
  have "dropna (xs_level0 two_date_table (734329, 32400)) = [(15, slot_row 734329 (Some (1 / 2)))]"
    by (simp add: xs_level0_def two_date_table_def one_date_table_def dropna_Nil dropna_Some dropna_None)
  then show ?thesis
    by (simp add: test_step_def take_rows_def features_def toy_sklearn_def seq_def)
qed

end
